theory Spec2Isabelle
  imports Complex_Main
begin

section \<open>Python values and exceptions\<close>

text \<open>
  The application is a single Flask module, \<^verbatim>\<open>app.py\<close>. Its handlers read form
  fields, run SQL statements through a cursor with \<^verbatim>\<open>autocommit=True\<close>, and
  answer with a redirect or a rendered template. No handler catches an exception, so a
  raised exception ends the request; it is a value of \<open>py_error\<close> here.
\<close>

datatype py_error =
  ValueError | TypeError | AttributeError | IntegrityError | DataError | OperationalError

text \<open>
  \<^verbatim>\<open>x or d\<close> on a form field: \<^verbatim>\<open>request.form.get\<close> gives \<^verbatim>\<open>None\<close> for a
  missing field and the text otherwise; \<^verbatim>\<open>None\<close> and the empty text are falsy.
\<close>

definition py_or :: "string option \<Rightarrow> string \<Rightarrow> string" where
  "py_or x d = (case x of None \<Rightarrow> d | Some s \<Rightarrow> if s = [] then d else s)"

definition py_or_none :: "string option \<Rightarrow> string option" where
  "py_or_none x = (case x of None \<Rightarrow> None | Some s \<Rightarrow> if s = [] then None else Some s)"

section \<open>Dates\<close>

text \<open>
  \<^verbatim>\<open>calc_total_cost\<close> parses its two dates with
  \<^verbatim>\<open>datetime.strptime(s, "%Y-%m-%d").date()\<close> and subtracts them. The standard
  library's \<^verbatim>\<open>date\<close> is a year, a month and a day of the proleptic Gregorian
  calendar; the \<^verbatim>\<open>days\<close> of a difference of two dates is the difference of their
  ordinals (\<^verbatim>\<open>toordinal\<close>), and dates compare as the triples (year, month, day).
  The definitions below follow the library's own arithmetic.
\<close>

record date =
  year :: int
  month :: int
  day :: int

definition is_leap :: "int \<Rightarrow> bool" where
  "is_leap y = (y mod 4 = 0 \<and> (y mod 100 \<noteq> 0 \<or> y mod 400 = 0))"

definition days_before_year :: "int \<Rightarrow> int" where
  "days_before_year y = (let y1 = y - 1 in y1 * 365 + y1 div 4 - y1 div 100 + y1 div 400)"

definition days_in_month :: "int \<Rightarrow> int \<Rightarrow> int" where
  "days_in_month y m =
     (if m = 2 \<and> is_leap y then 29
      else if m = 2 then 28
      else if m = 4 \<or> m = 6 \<or> m = 9 \<or> m = 11 then 30
      else 31)"

definition days_before_month :: "int \<Rightarrow> int \<Rightarrow> int" where
  "days_before_month y m =
     (if m = 1 then 0 else if m = 2 then 31 else if m = 3 then 59
      else if m = 4 then 90 else if m = 5 then 120 else if m = 6 then 151
      else if m = 7 then 181 else if m = 8 then 212 else if m = 9 then 243
      else if m = 10 then 273 else if m = 11 then 304 else 334)
     + (if m > 2 \<and> is_leap y then 1 else 0)"

definition toordinal :: "date \<Rightarrow> int" where
  "toordinal d = days_before_year (year d) + days_before_month (year d) (month d) + day d"

text \<open>The check made by the \<^verbatim>\<open>date\<close> constructor (it raises \<^verbatim>\<open>ValueError\<close> otherwise).\<close>

definition valid_date :: "date \<Rightarrow> bool" where
  "valid_date d =
     (1 \<le> year d \<and> year d \<le> 9999 \<and> 1 \<le> month d \<and> month d \<le> 12 \<and>
      1 \<le> day d \<and> day d \<le> days_in_month (year d) (month d))"

text \<open>Comparison of dates: the comparison of the triples (year, month, day).\<close>

definition date_less :: "date \<Rightarrow> date \<Rightarrow> bool" where
  "date_less a b =
     (year a < year b \<or>
      (year a = year b \<and> (month a < month b \<or> (month a = month b \<and> day a < day b))))"

definition date_le :: "date \<Rightarrow> date \<Rightarrow> bool" where
  "date_le a b = (date_less a b \<or> a = b)"

text \<open>\<^verbatim>\<open>(a - b).days\<close>\<close>

definition date_diff_days :: "date \<Rightarrow> date \<Rightarrow> int" where
  "date_diff_days a b = toordinal a - toordinal b"

subsection \<open>Parsing with the format \<^verbatim>\<open>%Y-%m-%d\<close>\<close>

text \<open>
  \<^verbatim>\<open>strptime\<close> turns the format into a regular expression, matches it at the start of
  the text and refuses text that remains after the match. For this format the
  expression is four digits, a hyphen, a month
  (\<^verbatim>\<open>1[0-2]|0[1-9]|[1-9]\<close>), a hyphen and a day
  (\<^verbatim>\<open>3[01]|[12]\d|0[1-9]|[1-9]| [1-9]\<close>), the alternatives tried in this order.
  Form text is taken to be ASCII here.
\<close>

definition is_digit :: "char \<Rightarrow> bool" where
  "is_digit c = (c \<in> set ''0123456789'')"

definition is_digit19 :: "char \<Rightarrow> bool" where
  "is_digit19 c = (c \<in> set ''123456789'')"

definition digit_val :: "char \<Rightarrow> int" where
  "digit_val c = int (of_char c) - 48"

fun parse_year :: "string \<Rightarrow> (int \<times> string) option" where
  "parse_year (a # b # c # d # rest) =
     (if is_digit a \<and> is_digit b \<and> is_digit c \<and> is_digit d
      then Some (1000 * digit_val a + 100 * digit_val b + 10 * digit_val c + digit_val d, rest)
      else None)"
| "parse_year _ = None"

fun parse_month :: "string \<Rightarrow> (int \<times> string) option" where
  "parse_month (a # b # rest) =
     (if a = CHR ''1'' \<and> b \<in> set ''012'' then Some (10 + digit_val b, rest)
      else if a = CHR ''0'' \<and> is_digit19 b then Some (digit_val b, rest)
      else if is_digit19 a then Some (digit_val a, b # rest)
      else None)"
| "parse_month [a] = (if is_digit19 a then Some (digit_val a, []) else None)"
| "parse_month [] = None"

fun parse_day :: "string \<Rightarrow> (int \<times> string) option" where
  "parse_day (a # b # rest) =
     (if a = CHR ''3'' \<and> b \<in> set ''01'' then Some (30 + digit_val b, rest)
      else if a \<in> set ''12'' \<and> is_digit b then Some (10 * digit_val a + digit_val b, rest)
      else if a = CHR ''0'' \<and> is_digit19 b then Some (digit_val b, rest)
      else if is_digit19 a then Some (digit_val a, b # rest)
      else if a = CHR '' '' \<and> is_digit19 b then Some (digit_val b, rest)
      else None)"
| "parse_day [a] = (if is_digit19 a then Some (digit_val a, []) else None)"
| "parse_day [] = None"

fun hyphen :: "string \<Rightarrow> string option" where
  "hyphen (c # rest) = (if c = CHR ''-'' then Some rest else None)"
| "hyphen [] = None"

definition match_ymd :: "string \<Rightarrow> (int \<times> int \<times> int) option" where
  "match_ymd s =
     (case parse_year s of None \<Rightarrow> None | Some (y, r1) \<Rightarrow>
      (case hyphen r1 of None \<Rightarrow> None | Some r2 \<Rightarrow>
      (case parse_month r2 of None \<Rightarrow> None | Some (m, r3) \<Rightarrow>
      (case hyphen r3 of None \<Rightarrow> None | Some r4 \<Rightarrow>
      (case parse_day r4 of None \<Rightarrow> None | Some (d, r5) \<Rightarrow>
       if r5 = [] then Some (y, m, d) else None)))))"

text \<open>
  \<^verbatim>\<open>datetime.strptime(s, "%Y-%m-%d").date()\<close>: \<^verbatim>\<open>TypeError\<close> when \<open>s\<close> is
  \<^verbatim>\<open>None\<close>, \<^verbatim>\<open>ValueError\<close> when the text does not match or names no date.
\<close>

definition strptime_date :: "string option \<Rightarrow> py_error + date" where
  "strptime_date x =
     (case x of None \<Rightarrow> Inl TypeError
      | Some s \<Rightarrow>
        (case match_ymd s of None \<Rightarrow> Inl ValueError
         | Some (y, m, d) \<Rightarrow>
             (let dt = \<lparr>year = y, month = m, day = d\<rparr>
              in if valid_date dt then Inr dt else Inl ValueError)))"

section \<open>The rental cost\<close>

text \<open>
  \<^verbatim>\<open>
  def calc_total_cost(car_price_per_day, start_date, end_date):
      sd = datetime.strptime(start_date, "%Y-%m-%d").date()
      ed = datetime.strptime(end_date, "%Y-%m-%d").date()
      days = (ed - sd).days + 1
      if days < 1:
          days = 1
      return float(car_price_per_day) * days
  \<close>
  Prices are reals: the product of the price and the day count is taken exactly, where
  the program multiplies two floats.
\<close>

definition calc_total_cost :: "real \<Rightarrow> string option \<Rightarrow> string option \<Rightarrow> py_error + real" where
  "calc_total_cost car_price_per_day start_date end_date =
     (case strptime_date start_date of Inl e \<Rightarrow> Inl e
      | Inr sd \<Rightarrow>
        (case strptime_date end_date of Inl e \<Rightarrow> Inl e
         | Inr ed \<Rightarrow>
             (let days = date_diff_days ed sd + 1;
                  days = (if days < 1 then 1 else days)
              in Inr (car_price_per_day * real_of_int days))))"

section \<open>The database\<close>

text \<open>
  \<^verbatim>\<open>init_db\<close> creates five tables. A row is a record of its columns
  (\<^verbatim>\<open>created_at\<close> is left out: a table's rows are kept in the order of insertion).
  A column that may be \<^verbatim>\<open>NULL\<close> is an option. A \<^verbatim>\<open>DATE\<close> column holds the text
  sent to the server. Every table has an \<^verbatim>\<open>AUTO_INCREMENT\<close> key, so a table is its
  rows and the next key.

  Numbers reach the server as form text; the server's reading of that text is not
  modelled, and a numeric form field is the number the server reads (\<open>None\<close> when the
  field is missing or empty). Whether the number fits its column is modelled. The
  prices the application writes are never \<^verbatim>\<open>NULL\<close>.
\<close>

record 'a table =
  rows :: "'a list"
  auto_increment :: int

record user_row =
  usr_id :: int
  usr_username :: string
  usr_password_hash :: string
  usr_role :: "string option"

record car_row =
  car_key :: int
  car_name :: string
  car_brand :: "string option"
  car_model :: "string option"
  car_year :: "int option"
  car_price_per_day :: real
  car_status :: string
  car_description :: "string option"

record customer_row =
  cust_id :: int
  cust_name :: string
  cust_email :: "string option"
  cust_phone :: "string option"
  cust_license_no :: "string option"
  cust_address :: "string option"

record booking_row =
  bk_id :: int
  bk_car_id :: int
  bk_customer_id :: int
  bk_start_date :: string
  bk_end_date :: string
  bk_total_cost :: real
  bk_status :: "string option"

record service_row =
  sv_id :: int
  sv_car_id :: int
  sv_service_date :: "string option"
  sv_service_type :: "string option"
  sv_cost :: real
  sv_remarks :: "string option"

record db =
  users :: "user_row table"
  cars :: "car_row table"
  customers :: "customer_row table"
  bookings :: "booking_row table"
  services :: "service_row table"

definition append_row :: "(int \<Rightarrow> 'a) \<Rightarrow> 'a table \<Rightarrow> 'a table" where
  "append_row mk t =
     \<lparr>rows = rows t @ [mk (auto_increment t)], auto_increment = auto_increment t + 1\<rparr>"

definition update_where :: "('a \<Rightarrow> bool) \<Rightarrow> ('a \<Rightarrow> 'a) \<Rightarrow> 'a table \<Rightarrow> 'a table" where
  "update_where p f t = t\<lparr>rows := map (\<lambda>r. if p r then f r else r) (rows t)\<rparr>"

definition delete_where :: "('a \<Rightarrow> bool) \<Rightarrow> 'a table \<Rightarrow> 'a table" where
  "delete_where p t = t\<lparr>rows := filter (\<lambda>r. \<not> p r) (rows t)\<rparr>"

definition matches :: "('a \<Rightarrow> bool) \<Rightarrow> 'a table \<Rightarrow> bool" where
  "matches p t = list_ex p (rows t)"

subsection \<open>Comparison of text columns\<close>

text \<open>
  The database is created with \<^verbatim>\<open>COLLATE utf8mb4_general_ci\<close>: two texts are equal
  to the server when they agree up to the case of letters and trailing spaces (for
  ASCII text, which is what is modelled).
\<close>

definition upper_char :: "char \<Rightarrow> char" where
  "upper_char c =
     (case map_of (zip ''abcdefghijklmnopqrstuvwxyz'' ''ABCDEFGHIJKLMNOPQRSTUVWXYZ'') c of
        Some u \<Rightarrow> u | None \<Rightarrow> c)"

definition collation_key :: "string \<Rightarrow> string" where
  "collation_key s = map upper_char (rev (dropWhile (\<lambda>c. c = CHR '' '') (rev s)))"

definition collate_eq :: "string \<Rightarrow> string \<Rightarrow> bool" where
  "collate_eq a b = (collation_key a = collation_key b)"

subsection \<open>Column types\<close>

text \<open>
  The server runs in strict mode (its default): a value that does not fit its column is
  refused and the statement changes nothing. The driver raises \<^verbatim>\<open>DataError\<close> for a
  number out of range (error 1264) and for a text that is too long (1406),
  \<^verbatim>\<open>OperationalError\<close> for a text that is no date (1292) and
  \<^verbatim>\<open>IntegrityError\<close> for a \<^verbatim>\<open>NULL\<close> in a \<^verbatim>\<open>NOT NULL\<close> column (1048).
  The columns of a statement are checked in the order in which the statement lists them;
  the first refusal is the exception raised.
\<close>

definition bind_err :: "py_error + 'a \<Rightarrow> ('a \<Rightarrow> py_error + 'b) \<Rightarrow> py_error + 'b" where
  "bind_err m f = (case m of Inl e \<Rightarrow> Inl e | Inr x \<Rightarrow> f x)"

definition nullable :: "('a \<Rightarrow> py_error + 'b) \<Rightarrow> 'a option \<Rightarrow> py_error + 'b option" where
  "nullable col x =
     (case x of None \<Rightarrow> Inr None | Some v \<Rightarrow> bind_err (col v) (\<lambda>r. Inr (Some r)))"

definition not_null :: "('a \<Rightarrow> py_error + 'b) \<Rightarrow> 'a option \<Rightarrow> py_error + 'b" where
  "not_null col x = (case x of None \<Rightarrow> Inl IntegrityError | Some v \<Rightarrow> col v)"

text \<open>
  \<^verbatim>\<open>VARCHAR(n)\<close>: at most \<open>n\<close> characters. Spaces at the end beyond the length are
  cut off with a warning; any other excess is refused.
\<close>

definition varchar :: "nat \<Rightarrow> string \<Rightarrow> py_error + string" where
  "varchar n s =
     (if length s \<le> n then Inr s
      else if list_all (\<lambda>c. c = CHR '' '') (drop n s) then Inr (take n s)
      else Inl DataError)"

text \<open>\<^verbatim>\<open>TEXT\<close>: the same rule, at 65535 bytes.\<close>

definition text_column :: "string \<Rightarrow> py_error + string" where
  "text_column s = varchar 65535 s"

text \<open>\<^verbatim>\<open>INT\<close>\<close>

definition int_column :: "int \<Rightarrow> py_error + int" where
  "int_column i = (if - 2147483648 \<le> i \<and> i \<le> 2147483647 then Inr i else Inl DataError)"

text \<open>
  \<^verbatim>\<open>DECIMAL(p,2)\<close>: the value is rounded to two decimals, halves away from zero, and
  must then have at most \<open>p - 2\<close> digits before the point. \<open>decimal_column\<close> takes that
  number of digits: 10 for \<^verbatim>\<open>DECIMAL(12,2)\<close>, 8 for \<^verbatim>\<open>DECIMAL(10,2)\<close>.
\<close>

definition decimal_round :: "real \<Rightarrow> real" where
  "decimal_round x =
     (if 0 \<le> x then real_of_int \<lfloor>x * 100 + 1 / 2\<rfloor> / 100
      else - (real_of_int \<lfloor>- x * 100 + 1 / 2\<rfloor> / 100))"

definition decimal_column :: "nat \<Rightarrow> real \<Rightarrow> py_error + real" where
  "decimal_column digits x =
     (let r = decimal_round x in if \<bar>r\<bar> < 10 ^ digits then Inr r else Inl DataError)"

text \<open>
  \<^verbatim>\<open>DATE\<close>: the server reads the text as a date or refuses it. Of the texts it reads,
  those written as year, month and day with hyphens are modelled, the texts
  \<^verbatim>\<open>strptime\<close> reads with \<^verbatim>\<open>%Y-%m-%d\<close>, which is what the date fields of the
  pages send. The server reads some other forms too (no delimiters, two-digit years);
  such a text is outside the model, which lets it be refused, and the theorems below
  conclude from a refused date only at a text that is no date in any form. The column
  holds the text.
\<close>

definition date_column :: "string \<Rightarrow> py_error + string" where
  "date_column t =
     (case strptime_date (Some t) of Inr d \<Rightarrow> Inr t | Inl e \<Rightarrow> Inl OperationalError)"

subsection \<open>The statements the handlers run\<close>

text \<open>
  The connection is opened with \<^verbatim>\<open>autocommit=True\<close>: each statement takes effect
  alone. A statement that breaks a column type, \<^verbatim>\<open>NOT NULL\<close>, \<^verbatim>\<open>UNIQUE\<close> or a
  \<^verbatim>\<open>FOREIGN KEY\<close> changes nothing and raises; the foreign keys are checked after
  the columns. An \<^verbatim>\<open>UPDATE\<close> that matches no row checks nothing. A comparison with
  \<^verbatim>\<open>NULL\<close> selects no row. Keys are not bounded: \<^verbatim>\<open>AUTO_INCREMENT\<close> is taken not to
  reach the end of \<^verbatim>\<open>INT\<close>.
\<close>

text \<open>\<^verbatim>\<open>SELECT * FROM users WHERE username=%s\<close>, \<^verbatim>\<open>fetchone()\<close>\<close>

definition select_user :: "string option \<Rightarrow> db \<Rightarrow> user_row option" where
  "select_user u d =
     (case u of None \<Rightarrow> None
      | Some n \<Rightarrow> find (\<lambda>r. collate_eq (usr_username r) n) (rows (users d)))"

text \<open>
  \<^verbatim>\<open>INSERT INTO users (username, password_hash, role) VALUES (%s, %s, %s)\<close>, into
  \<^verbatim>\<open>username VARCHAR(100) UNIQUE NOT NULL\<close>, \<^verbatim>\<open>password_hash VARCHAR(255) NOT NULL\<close>
  and \<^verbatim>\<open>role VARCHAR(50)\<close>.
\<close>

definition insert_user :: "string \<Rightarrow> string \<Rightarrow> string \<Rightarrow> db \<Rightarrow> py_error + db" where
  "insert_user n h r d =
     bind_err (varchar 100 n) (\<lambda>n'.
     bind_err (varchar 255 h) (\<lambda>h'.
     bind_err (varchar 50 r) (\<lambda>r'.
       if matches (\<lambda>x. collate_eq (usr_username x) n') (users d) then Inl IntegrityError
       else Inr (d\<lparr>users := append_row
              (\<lambda>i. \<lparr>usr_id = i, usr_username = n', usr_password_hash = h', usr_role = Some r'\<rparr>)
              (users d)\<rparr>))))"

text \<open>\<^verbatim>\<open>SELECT ... FROM cars WHERE id=%s\<close>, \<^verbatim>\<open>fetchone()\<close>\<close>

definition select_car :: "int option \<Rightarrow> db \<Rightarrow> car_row option" where
  "select_car i d =
     (case i of None \<Rightarrow> None | Some k \<Rightarrow> find (\<lambda>r. car_key r = k) (rows (cars d)))"

definition select_customer :: "int option \<Rightarrow> db \<Rightarrow> customer_row option" where
  "select_customer i d =
     (case i of None \<Rightarrow> None | Some k \<Rightarrow> find (\<lambda>r. cust_id r = k) (rows (customers d)))"

definition select_booking :: "int \<Rightarrow> db \<Rightarrow> booking_row option" where
  "select_booking k d = find (\<lambda>r. bk_id r = k) (rows (bookings d))"

definition select_service :: "int \<Rightarrow> db \<Rightarrow> service_row option" where
  "select_service k d = find (\<lambda>r. sv_id r = k) (rows (services d))"

text \<open>
  The columns of \<^verbatim>\<open>cars\<close> that the two car statements write, in their order:
  \<^verbatim>\<open>name VARCHAR(120) NOT NULL\<close>, \<^verbatim>\<open>brand VARCHAR(120)\<close>, \<^verbatim>\<open>model VARCHAR(120)\<close>,
  \<^verbatim>\<open>year INT\<close>, \<^verbatim>\<open>price_per_day DECIMAL(10,2)\<close>, \<^verbatim>\<open>status VARCHAR(50)\<close>,
  \<^verbatim>\<open>description TEXT\<close>.
\<close>

definition car_columns ::
  "string option \<Rightarrow> string option \<Rightarrow> string option \<Rightarrow> int option \<Rightarrow> real \<Rightarrow> string \<Rightarrow>
   string option \<Rightarrow>
   py_error + (string \<times> string option \<times> string option \<times> int option \<times> real \<times> string \<times>
               string option)" where
  "car_columns name brand model yr price status description =
     bind_err (not_null (varchar 120) name) (\<lambda>n.
     bind_err (nullable (varchar 120) brand) (\<lambda>b.
     bind_err (nullable (varchar 120) model) (\<lambda>m.
     bind_err (nullable int_column yr) (\<lambda>y.
     bind_err (decimal_column 8 price) (\<lambda>p.
     bind_err (varchar 50 status) (\<lambda>s.
     bind_err (nullable text_column description) (\<lambda>ds.
       Inr (n, b, m, y, p, s, ds))))))))"

text \<open>
  \<^verbatim>\<open>INSERT INTO cars (name, brand, model, year, price_per_day, status, description)\<close>
\<close>

definition insert_car ::
  "string option \<Rightarrow> string option \<Rightarrow> string option \<Rightarrow> int option \<Rightarrow> real \<Rightarrow> string \<Rightarrow>
   string option \<Rightarrow> db \<Rightarrow> py_error + db" where
  "insert_car name brand model yr price status description d =
     bind_err (car_columns name brand model yr price status description)
       (\<lambda>(n, b, m, y, p, s, ds).
          Inr (d\<lparr>cars := append_row
            (\<lambda>i. \<lparr>car_key = i, car_name = n, car_brand = b, car_model = m, car_year = y,
                  car_price_per_day = p, car_status = s, car_description = ds\<rparr>) (cars d)\<rparr>))"

text \<open>
  \<^verbatim>\<open>UPDATE cars SET name=%s, brand=%s, model=%s, year=%s, price_per_day=%s, status=%s,
  description=%s WHERE id=%s\<close>
\<close>

definition update_car ::
  "string option \<Rightarrow> string option \<Rightarrow> string option \<Rightarrow> int option \<Rightarrow> real \<Rightarrow> string \<Rightarrow>
   string option \<Rightarrow> int \<Rightarrow> db \<Rightarrow> py_error + db" where
  "update_car name brand model yr price status description k d =
     (if \<not> matches (\<lambda>r. car_key r = k) (cars d) then Inr d
      else bind_err (car_columns name brand model yr price status description)
        (\<lambda>(n, b, m, y, p, s, ds).
           Inr (d\<lparr>cars := update_where (\<lambda>r. car_key r = k)
             (\<lambda>r. r\<lparr>car_name := n, car_brand := b, car_model := m, car_year := y,
                    car_price_per_day := p, car_status := s, car_description := ds\<rparr>)
             (cars d)\<rparr>)))"

text \<open>
  \<^verbatim>\<open>UPDATE cars SET status=%s WHERE id=%s\<close>. The handlers send \<open>rented\<close>,
  \<open>available\<close> and \<open>maintenance\<close>, which fit \<^verbatim>\<open>VARCHAR(50)\<close>.
\<close>

definition update_car_status :: "string \<Rightarrow> int option \<Rightarrow> db \<Rightarrow> db" where
  "update_car_status s i d =
     (case i of None \<Rightarrow> d
      | Some k \<Rightarrow> d\<lparr>cars := update_where (\<lambda>r. car_key r = k) (\<lambda>r. r\<lparr>car_status := s\<rparr>) (cars d)\<rparr>)"

text \<open>
  \<^verbatim>\<open>DELETE FROM cars WHERE id=%s\<close>. The bookings and the services of a deleted car go
  with it: both tables declare
  \<^verbatim>\<open>FOREIGN KEY (car_id) REFERENCES cars(id) ON DELETE CASCADE\<close>. When no car has
  the key, no row is deleted and nothing cascades.
\<close>

definition delete_car_row :: "int \<Rightarrow> db \<Rightarrow> db" where
  "delete_car_row k d =
     (if matches (\<lambda>r. car_key r = k) (cars d)
      then d\<lparr>cars := delete_where (\<lambda>r. car_key r = k) (cars d),
             bookings := delete_where (\<lambda>b. bk_car_id b = k) (bookings d),
             services := delete_where (\<lambda>s. sv_car_id s = k) (services d)\<rparr>
      else d)"

text \<open>
  The columns of \<^verbatim>\<open>customers\<close>: \<^verbatim>\<open>name VARCHAR(150) NOT NULL\<close>,
  \<^verbatim>\<open>email VARCHAR(150)\<close>, \<^verbatim>\<open>phone VARCHAR(50)\<close>, \<^verbatim>\<open>license_no VARCHAR(120)\<close>,
  \<^verbatim>\<open>address TEXT\<close>.
\<close>

definition customer_columns ::
  "string option \<Rightarrow> string option \<Rightarrow> string option \<Rightarrow> string option \<Rightarrow> string option \<Rightarrow>
   py_error + (string \<times> string option \<times> string option \<times> string option \<times> string option)" where
  "customer_columns name email phone license_no address =
     bind_err (not_null (varchar 150) name) (\<lambda>n.
     bind_err (nullable (varchar 150) email) (\<lambda>e.
     bind_err (nullable (varchar 50) phone) (\<lambda>p.
     bind_err (nullable (varchar 120) license_no) (\<lambda>l.
     bind_err (nullable text_column address) (\<lambda>a.
       Inr (n, e, p, l, a))))))"

text \<open>\<^verbatim>\<open>INSERT INTO customers (name,email,phone,license_no,address)\<close>\<close>

definition insert_customer ::
  "string option \<Rightarrow> string option \<Rightarrow> string option \<Rightarrow> string option \<Rightarrow> string option \<Rightarrow>
   db \<Rightarrow> py_error + db" where
  "insert_customer name email phone license_no address d =
     bind_err (customer_columns name email phone license_no address)
       (\<lambda>(n, e, p, l, a).
          Inr (d\<lparr>customers := append_row
            (\<lambda>i. \<lparr>cust_id = i, cust_name = n, cust_email = e, cust_phone = p,
                  cust_license_no = l, cust_address = a\<rparr>) (customers d)\<rparr>))"

text \<open>
  \<^verbatim>\<open>UPDATE customers SET name=%s, email=%s, phone=%s, license_no=%s, address=%s
  WHERE id=%s\<close>
\<close>

definition update_customer ::
  "string option \<Rightarrow> string option \<Rightarrow> string option \<Rightarrow> string option \<Rightarrow> string option \<Rightarrow>
   int \<Rightarrow> db \<Rightarrow> py_error + db" where
  "update_customer name email phone license_no address k d =
     (if \<not> matches (\<lambda>r. cust_id r = k) (customers d) then Inr d
      else bind_err (customer_columns name email phone license_no address)
        (\<lambda>(n, e, p, l, a).
           Inr (d\<lparr>customers := update_where (\<lambda>r. cust_id r = k)
             (\<lambda>r. r\<lparr>cust_name := n, cust_email := e, cust_phone := p,
                    cust_license_no := l, cust_address := a\<rparr>) (customers d)\<rparr>)))"

text \<open>
  \<^verbatim>\<open>DELETE FROM customers WHERE id=%s\<close>; the bookings of a deleted customer go with
  it (\<^verbatim>\<open>FOREIGN KEY (customer_id) REFERENCES customers(id) ON DELETE CASCADE\<close>).
\<close>

definition delete_customer_row :: "int \<Rightarrow> db \<Rightarrow> db" where
  "delete_customer_row k d =
     (if matches (\<lambda>r. cust_id r = k) (customers d)
      then d\<lparr>customers := delete_where (\<lambda>r. cust_id r = k) (customers d),
             bookings := delete_where (\<lambda>b. bk_customer_id b = k) (bookings d)\<rparr>
      else d)"

text \<open>
  The columns of \<^verbatim>\<open>bookings\<close>: \<^verbatim>\<open>car_id INT NOT NULL\<close>,
  \<^verbatim>\<open>customer_id INT NOT NULL\<close>, \<^verbatim>\<open>start_date DATE NOT NULL\<close>,
  \<^verbatim>\<open>end_date DATE NOT NULL\<close>, \<^verbatim>\<open>total_cost DECIMAL(12,2)\<close>,
  \<^verbatim>\<open>status VARCHAR(50)\<close>.
\<close>

definition booking_columns ::
  "int option \<Rightarrow> int option \<Rightarrow> string option \<Rightarrow> string option \<Rightarrow> real \<Rightarrow> string option \<Rightarrow>
   py_error + (int \<times> int \<times> string \<times> string \<times> real \<times> string option)" where
  "booking_columns c u sd ed total_cost status =
     bind_err (not_null Inr c) (\<lambda>ck.
     bind_err (not_null Inr u) (\<lambda>uk.
     bind_err (not_null date_column sd) (\<lambda>s.
     bind_err (not_null date_column ed) (\<lambda>e.
     bind_err (decimal_column 10 total_cost) (\<lambda>t.
     bind_err (nullable (varchar 50) status) (\<lambda>st.
       Inr (ck, uk, s, e, t, st)))))))"

text \<open>The two foreign keys of a booking.\<close>

definition booking_refs_ok :: "int option \<Rightarrow> int option \<Rightarrow> db \<Rightarrow> bool" where
  "booking_refs_ok c u d = (select_car c d \<noteq> None \<and> select_customer u d \<noteq> None)"

text \<open>
  \<^verbatim>\<open>INSERT INTO bookings (car_id, customer_id, start_date, end_date, total_cost, status)\<close>
\<close>

definition insert_booking ::
  "int option \<Rightarrow> int option \<Rightarrow> string option \<Rightarrow> string option \<Rightarrow> real \<Rightarrow> string \<Rightarrow>
   db \<Rightarrow> py_error + db" where
  "insert_booking c u sd ed total_cost status d =
     bind_err (booking_columns c u sd ed total_cost (Some status))
       (\<lambda>(ck, uk, s, e, t, st).
          if booking_refs_ok c u d
          then Inr (d\<lparr>bookings := append_row
            (\<lambda>i. \<lparr>bk_id = i, bk_car_id = ck, bk_customer_id = uk, bk_start_date = s,
                  bk_end_date = e, bk_total_cost = t, bk_status = st\<rparr>)
            (bookings d)\<rparr>)
          else Inl IntegrityError)"

text \<open>
  \<^verbatim>\<open>UPDATE bookings SET car_id=%s, customer_id=%s, start_date=%s, end_date=%s,
  total_cost=%s, status=%s WHERE id=%s\<close>
\<close>

definition update_booking ::
  "int option \<Rightarrow> int option \<Rightarrow> string option \<Rightarrow> string option \<Rightarrow> real \<Rightarrow> string option \<Rightarrow>
   int \<Rightarrow> db \<Rightarrow> py_error + db" where
  "update_booking c u sd ed total_cost status k d =
     (if \<not> matches (\<lambda>r. bk_id r = k) (bookings d) then Inr d
      else bind_err (booking_columns c u sd ed total_cost status)
        (\<lambda>(ck, uk, s, e, t, st).
           if booking_refs_ok c u d
           then Inr (d\<lparr>bookings := update_where (\<lambda>r. bk_id r = k)
             (\<lambda>r. r\<lparr>bk_car_id := ck, bk_customer_id := uk, bk_start_date := s,
                    bk_end_date := e, bk_total_cost := t, bk_status := st\<rparr>)
             (bookings d)\<rparr>)
           else Inl IntegrityError))"

text \<open>\<^verbatim>\<open>DELETE FROM bookings WHERE id=%s\<close>\<close>

definition delete_booking_row :: "int \<Rightarrow> db \<Rightarrow> db" where
  "delete_booking_row k d = d\<lparr>bookings := delete_where (\<lambda>r. bk_id r = k) (bookings d)\<rparr>"

text \<open>
  The columns of \<^verbatim>\<open>services\<close>: \<^verbatim>\<open>car_id INT NOT NULL\<close>, \<^verbatim>\<open>service_date DATE\<close>,
  \<^verbatim>\<open>service_type VARCHAR(200)\<close>, \<^verbatim>\<open>cost DECIMAL(10,2)\<close>, \<^verbatim>\<open>remarks TEXT\<close>.
\<close>

definition service_columns ::
  "int option \<Rightarrow> string option \<Rightarrow> string option \<Rightarrow> real \<Rightarrow> string option \<Rightarrow>
   py_error + (int \<times> string option \<times> string option \<times> real \<times> string option)" where
  "service_columns c service_date service_type cost remarks =
     bind_err (not_null Inr c) (\<lambda>ck.
     bind_err (nullable date_column service_date) (\<lambda>sd.
     bind_err (nullable (varchar 200) service_type) (\<lambda>ty.
     bind_err (decimal_column 8 cost) (\<lambda>co.
     bind_err (nullable text_column remarks) (\<lambda>rem.
       Inr (ck, sd, ty, co, rem))))))"

text \<open>
  \<^verbatim>\<open>INSERT INTO services (car_id, service_date, service_type, cost, remarks)\<close>
\<close>

definition insert_service ::
  "int option \<Rightarrow> string option \<Rightarrow> string option \<Rightarrow> real \<Rightarrow> string option \<Rightarrow>
   db \<Rightarrow> py_error + db" where
  "insert_service c service_date service_type cost remarks d =
     bind_err (service_columns c service_date service_type cost remarks)
       (\<lambda>(ck, sd, ty, co, rem).
          if select_car c d \<noteq> None
          then Inr (d\<lparr>services := append_row
            (\<lambda>i. \<lparr>sv_id = i, sv_car_id = ck, sv_service_date = sd,
                  sv_service_type = ty, sv_cost = co, sv_remarks = rem\<rparr>)
            (services d)\<rparr>)
          else Inl IntegrityError)"

text \<open>
  \<^verbatim>\<open>UPDATE services SET car_id=%s, service_date=%s, service_type=%s, cost=%s,
  remarks=%s WHERE id=%s\<close>
\<close>

definition update_service ::
  "int option \<Rightarrow> string option \<Rightarrow> string option \<Rightarrow> real \<Rightarrow> string option \<Rightarrow>
   int \<Rightarrow> db \<Rightarrow> py_error + db" where
  "update_service c service_date service_type cost remarks k d =
     (if \<not> matches (\<lambda>r. sv_id r = k) (services d) then Inr d
      else bind_err (service_columns c service_date service_type cost remarks)
        (\<lambda>(ck, sd, ty, co, rem).
           if select_car c d \<noteq> None
           then Inr (d\<lparr>services := update_where (\<lambda>r. sv_id r = k)
             (\<lambda>r. r\<lparr>sv_car_id := ck, sv_service_date := sd,
                    sv_service_type := ty, sv_cost := co, sv_remarks := rem\<rparr>)
             (services d)\<rparr>)
           else Inl IntegrityError))"

text \<open>\<^verbatim>\<open>DELETE FROM services WHERE id=%s\<close>\<close>

definition delete_service_row :: "int \<Rightarrow> db \<Rightarrow> db" where
  "delete_service_row k d = d\<lparr>services := delete_where (\<lambda>r. sv_id r = k) (services d)\<rparr>"

section \<open>Start-up: \<^verbatim>\<open>init_db\<close>\<close>

text \<open>
  Before \<^verbatim>\<open>init_db\<close> has run a table may be missing (all of them when the database
  itself is): \<open>None\<close>. \<^verbatim>\<open>CREATE DATABASE IF NOT EXISTS\<close> and
  \<^verbatim>\<open>CREATE TABLE IF NOT EXISTS\<close> leave what exists as it is and create the rest
  empty. The module calls \<^verbatim>\<open>init_db()\<close> when it is loaded, before any request is
  served, so the handlers run on a \<open>db\<close>, where every table exists.
\<close>

record server =
  users_table :: "user_row table option"
  cars_table :: "car_row table option"
  customers_table :: "customer_row table option"
  bookings_table :: "booking_row table option"
  services_table :: "service_row table option"

definition create_table_if_not_exists :: "'a table option \<Rightarrow> 'a table" where
  "create_table_if_not_exists t =
     (case t of None \<Rightarrow> \<lparr>rows = [], auto_increment = 1\<rparr> | Some x \<Rightarrow> x)"

definition server_of :: "db \<Rightarrow> server" where
  "server_of d =
     \<lparr>users_table = Some (users d), cars_table = Some (cars d),
      customers_table = Some (customers d), bookings_table = Some (bookings d),
      services_table = Some (services d)\<rparr>"

definition ADMIN_DEFAULT_USERNAME :: string where
  "ADMIN_DEFAULT_USERNAME = ''admin''"

definition ADMIN_DEFAULT_PASSWORD :: string where
  "ADMIN_DEFAULT_PASSWORD = ''admin123''"

text \<open>
  \<^verbatim>\<open>generate_password_hash\<close> is the library's salted hash; it is a parameter
  (\<open>gen\<close>), as is \<^verbatim>\<open>check_password_hash\<close> in \<^verbatim>\<open>login\<close>.
  \<^verbatim>\<open>
      cur.execute("SELECT id FROM users WHERE username=%s", (ADMIN_DEFAULT_USERNAME,))
      if not cur.fetchone():
          pw_hash = generate_password_hash(ADMIN_DEFAULT_PASSWORD)
          cur.execute("INSERT INTO users (username, password_hash, role) VALUES (%s, %s, %s)",
                      (ADMIN_DEFAULT_USERNAME, pw_hash, 'admin'))
  \<close>
\<close>

definition init_db :: "(string \<Rightarrow> string) \<Rightarrow> server \<Rightarrow> py_error + db" where
  "init_db gen s =
     (let d = \<lparr>users = create_table_if_not_exists (users_table s),
               cars = create_table_if_not_exists (cars_table s),
               customers = create_table_if_not_exists (customers_table s),
               bookings = create_table_if_not_exists (bookings_table s),
               services = create_table_if_not_exists (services_table s)\<rparr>
      in if select_user (Some ADMIN_DEFAULT_USERNAME) d = None
         then insert_user ADMIN_DEFAULT_USERNAME (gen ADMIN_DEFAULT_PASSWORD) ''admin'' d
         else Inr d)"

text \<open>
  The \<^verbatim>\<open>INSERT\<close> of \<^verbatim>\<open>init_db\<close> is the only statement of the module that writes
  \<^verbatim>\<open>users\<close>. So on a server that only the application has written to, the users
  table is missing, or empty, or holds the one row that an earlier \<^verbatim>\<open>init_db\<close> wrote,
  with the hash that its \<^verbatim>\<open>generate_password_hash\<close> gave (\<open>g\<close>).
\<close>

definition seed_admin :: "(string \<Rightarrow> string) \<Rightarrow> user_row \<Rightarrow> bool" where
  "seed_admin g r =
     (usr_username r = ADMIN_DEFAULT_USERNAME \<and>
      usr_password_hash r = g ADMIN_DEFAULT_PASSWORD \<and> usr_role r = Some ''admin'')"

definition users_written_by_app :: "(string \<Rightarrow> string) \<Rightarrow> user_row table option \<Rightarrow> bool" where
  "users_written_by_app g t =
     (case t of None \<Rightarrow> True
      | Some u \<Rightarrow> (case rows u of [] \<Rightarrow> True | [r] \<Rightarrow> seed_admin g r | _ \<Rightarrow> False))"

section \<open>Requests, sessions and replies\<close>

datatype http_method = GET | POST

text \<open>
  The session holds \<^verbatim>\<open>user_id\<close> and \<^verbatim>\<open>username\<close> after a login. A reply is the
  messages flashed while the request was handled and the page returned, or the exception
  that ended the request. The data handed to a template is not modelled.
\<close>

record session =
  session_user_id :: "int option"
  session_username :: "string option"

datatype page = Redirect string | Template string

datatype reply = Reply "(string \<times> string) list" page | Raised py_error

record app_state =
  sess :: session
  store :: db

record login_form =
  lf_username :: "string option"
  lf_password :: "string option"

record car_form =
  cf_name :: "string option"
  cf_brand :: "string option"
  cf_model :: "string option"
  cf_year :: "int option"
  cf_price :: "real option"
  cf_status :: "string option"
  cf_description :: "string option"

record customer_form =
  uf_name :: "string option"
  uf_email :: "string option"
  uf_phone :: "string option"
  uf_license_no :: "string option"
  uf_address :: "string option"

record booking_form =
  bf_car_id :: "int option"
  bf_customer_id :: "int option"
  bf_start_date :: "string option"
  bf_end_date :: "string option"
  bf_status :: "string option"

record service_form =
  sf_car_id :: "int option"
  sf_service_date :: "string option"
  sf_service_type :: "string option"
  sf_cost :: "real option"
  sf_remarks :: "string option"

text \<open>\<^verbatim>\<open>request.form.get('price') or 0\<close>\<close>

definition or_zero :: "real option \<Rightarrow> real" where
  "or_zero x = (case x of None \<Rightarrow> 0 | Some v \<Rightarrow> v)"

text \<open>
  \<^verbatim>\<open>
  def admin_required(func):
      def wrapper(*args, **kwargs):
          if 'user_id' not in session:
              flash("Please login first.", "warning")
              return redirect(url_for('login'))
          return func(*args, **kwargs)
  \<close>
  The handlers it wraps read and write the database only. A handler is defined below
  under its own name, as the function of the source is; the route, which is the handler
  behind this check, has the suffix \<open>_route\<close>.
\<close>

definition admin_required :: "(db \<Rightarrow> reply \<times> db) \<Rightarrow> app_state \<Rightarrow> reply \<times> app_state" where
  "admin_required func st =
     (if session_user_id (sess st) = None
      then (Reply [(''Please login first.'', ''warning'')] (Redirect ''login''), st)
      else (case func (store st) of (r, d) \<Rightarrow> (r, st\<lparr>store := d\<rparr>)))"

section \<open>Authentication\<close>

text \<open>
  \<^verbatim>\<open>
  def login():
      if request.method == 'POST':
          u = request.form.get('username')
          p = request.form.get('password')
          cur.execute("SELECT * FROM users WHERE username=%s", (u,))
          user = cur.fetchone()
          if user and check_password_hash(user['password_hash'], p):
              session['user_id'] = user['id']
              session['username'] = user['username']
              flash("Logged in successfully.", "success")
              return redirect(url_for('dashboard'))
          else:
              flash("Invalid credentials.", "danger")
      return render_template('login.html')
  \<close>
  \<^verbatim>\<open>check_password_hash\<close> is the library's; it is called with the stored hash and the
  password field (\<open>None\<close> when the field is missing, which the library may answer with
  an exception), and only when a user was found.
\<close>

definition login ::
  "(string \<Rightarrow> string option \<Rightarrow> py_error + bool) \<Rightarrow> http_method \<Rightarrow> login_form \<Rightarrow>
   app_state \<Rightarrow> reply \<times> app_state" where
  "login check_password_hash method form st =
     (if method = POST then
        (let u = lf_username form; p = lf_password form; user = select_user u (store st)
         in case user of
              None \<Rightarrow> (Reply [(''Invalid credentials.'', ''danger'')] (Template ''login.html''), st)
            | Some usr \<Rightarrow>
                (case check_password_hash (usr_password_hash usr) p of
                   Inl e \<Rightarrow> (Raised e, st)
                 | Inr ok \<Rightarrow>
                     if ok
                     then (Reply [(''Logged in successfully.'', ''success'')]
                             (Redirect ''dashboard''),
                           st\<lparr>sess := \<lparr>session_user_id = Some (usr_id usr),
                                        session_username = Some (usr_username usr)\<rparr>\<rparr>)
                     else (Reply [(''Invalid credentials.'', ''danger'')]
                             (Template ''login.html''), st)))
      else (Reply [] (Template ''login.html''), st))"

text \<open>\<^verbatim>\<open>session.clear()\<close>, a message and a redirect\<close>

definition logout :: "app_state \<Rightarrow> reply \<times> app_state" where
  "logout st =
     (Reply [(''Logged out.'', ''info'')] (Redirect ''login''),
      st\<lparr>sess := \<lparr>session_user_id = None, session_username = None\<rparr>\<rparr>)"

section \<open>Cars\<close>

text \<open>
  \<^verbatim>\<open>
  def add_car():
      if request.method == 'POST':
          name = request.form.get('name')
          ...
          year = request.form.get('year') or None
          price = request.form.get('price') or 0
          status = request.form.get('status') or 'available'
          cur.execute("""INSERT INTO cars ...""", (name,brand,model,year,price,status,description))
          flash("Car added.", "success")
          return redirect(url_for('view_cars'))
      return render_template('add_car.html')
  \<close>
\<close>

definition add_car :: "http_method \<Rightarrow> car_form \<Rightarrow> db \<Rightarrow> reply \<times> db" where
  "add_car method form d =
     (if method = POST then
        (case insert_car (cf_name form) (cf_brand form) (cf_model form) (cf_year form)
                (or_zero (cf_price form)) (py_or (cf_status form) ''available'')
                (cf_description form) d of
           Inl e \<Rightarrow> (Raised e, d)
         | Inr d1 \<Rightarrow> (Reply [(''Car added.'', ''success'')] (Redirect ''view_cars''), d1))
      else (Reply [] (Template ''add_car.html''), d))"

definition add_car_route :: "http_method \<Rightarrow> car_form \<Rightarrow> app_state \<Rightarrow> reply \<times> app_state" where
  "add_car_route method form = admin_required (add_car method form)"

text \<open>
  \<^verbatim>\<open>
  def edit_car(id):
      if request.method == 'POST':
          ...
          cur.execute("""UPDATE cars SET ... WHERE id=%s""", (..., id))
          flash("Car updated.", "success")
          return redirect(url_for('view_cars'))
      cur.execute("SELECT * FROM cars WHERE id=%s", (id,))
      car = cur.fetchone()
      if not car:
          flash("Car not found.", "danger")
          return redirect(url_for('view_cars'))
      return render_template('edit_car.html', car=car)
  \<close>
\<close>

definition edit_car :: "int \<Rightarrow> http_method \<Rightarrow> car_form \<Rightarrow> db \<Rightarrow> reply \<times> db" where
  "edit_car k method form d =
     (if method = POST then
        (case update_car (cf_name form) (cf_brand form) (cf_model form) (cf_year form)
                (or_zero (cf_price form)) (py_or (cf_status form) ''available'')
                (cf_description form) k d of
           Inl e \<Rightarrow> (Raised e, d)
         | Inr d1 \<Rightarrow> (Reply [(''Car updated.'', ''success'')] (Redirect ''view_cars''), d1))
      else (case select_car (Some k) d of
              None \<Rightarrow> (Reply [(''Car not found.'', ''danger'')] (Redirect ''view_cars''), d)
            | Some car \<Rightarrow> (Reply [] (Template ''edit_car.html''), d)))"

definition edit_car_route :: "int \<Rightarrow> http_method \<Rightarrow> car_form \<Rightarrow> app_state \<Rightarrow> reply \<times> app_state" where
  "edit_car_route k method form = admin_required (edit_car k method form)"

text \<open>
  The route of every delete handler accepts \<^verbatim>\<open>POST\<close> only.
  \<^verbatim>\<open>
  def delete_car(id):
      cur.execute("DELETE FROM cars WHERE id=%s", (id,))
      flash("Car deleted.", "info")
      return redirect(url_for('view_cars'))
  \<close>
\<close>

definition delete_car :: "int \<Rightarrow> db \<Rightarrow> reply \<times> db" where
  "delete_car k d =
     (Reply [(''Car deleted.'', ''info'')] (Redirect ''view_cars''), delete_car_row k d)"

definition delete_car_route :: "int \<Rightarrow> app_state \<Rightarrow> reply \<times> app_state" where
  "delete_car_route k = admin_required (delete_car k)"

section \<open>Customers\<close>

definition add_customer :: "http_method \<Rightarrow> customer_form \<Rightarrow> db \<Rightarrow> reply \<times> db" where
  "add_customer method form d =
     (if method = POST then
        (case insert_customer (uf_name form) (uf_email form) (uf_phone form)
                (uf_license_no form) (uf_address form) d of
           Inl e \<Rightarrow> (Raised e, d)
         | Inr d1 \<Rightarrow>
             (Reply [(''Customer added.'', ''success'')] (Redirect ''view_customers''), d1))
      else (Reply [] (Template ''add_customer.html''), d))"

definition add_customer_route ::
  "http_method \<Rightarrow> customer_form \<Rightarrow> app_state \<Rightarrow> reply \<times> app_state" where
  "add_customer_route method form = admin_required (add_customer method form)"

definition edit_customer ::
  "int \<Rightarrow> http_method \<Rightarrow> customer_form \<Rightarrow> db \<Rightarrow> reply \<times> db" where
  "edit_customer k method form d =
     (if method = POST then
        (case update_customer (uf_name form) (uf_email form) (uf_phone form)
                (uf_license_no form) (uf_address form) k d of
           Inl e \<Rightarrow> (Raised e, d)
         | Inr d1 \<Rightarrow>
             (Reply [(''Customer updated.'', ''success'')] (Redirect ''view_customers''), d1))
      else (case select_customer (Some k) d of
              None \<Rightarrow>
                (Reply [(''Customer not found.'', ''danger'')] (Redirect ''view_customers''), d)
            | Some cust \<Rightarrow> (Reply [] (Template ''edit_customer.html''), d)))"

definition edit_customer_route ::
  "int \<Rightarrow> http_method \<Rightarrow> customer_form \<Rightarrow> app_state \<Rightarrow> reply \<times> app_state" where
  "edit_customer_route k method form = admin_required (edit_customer k method form)"

definition delete_customer :: "int \<Rightarrow> db \<Rightarrow> reply \<times> db" where
  "delete_customer k d =
     (Reply [(''Customer deleted.'', ''info'')] (Redirect ''view_customers''),
      delete_customer_row k d)"

definition delete_customer_route :: "int \<Rightarrow> app_state \<Rightarrow> reply \<times> app_state" where
  "delete_customer_route k = admin_required (delete_customer k)"

section \<open>Bookings\<close>

text \<open>
  \<^verbatim>\<open>
  def add_booking():
      ...
      if request.method == 'POST':
          car_id = request.form.get('car_id')
          customer_id = request.form.get('customer_id')
          start_date = request.form.get('start_date')
          end_date = request.form.get('end_date')
          cur.execute("SELECT price_per_day FROM cars WHERE id=%s", (car_id,))
          car = cur.fetchone()
          price = float(car['price_per_day']) if car else 0
          total = calc_total_cost(price, start_date, end_date)
          cur.execute("""INSERT INTO bookings (car_id, customer_id, start_date, end_date,
                         total_cost, status) VALUES (%s,%s,%s,%s,%s,%s)""",
                      (car_id, customer_id, start_date, end_date, total, 'active'))
          cur.execute("UPDATE cars SET status=%s WHERE id=%s", ('rented', car_id))
          flash("Booking created.", "success")
          return redirect(url_for('view_bookings'))
      return render_template('add_booking.html', cars=cars, customers=customers)
  \<close>
\<close>

definition car_price :: "int option \<Rightarrow> db \<Rightarrow> real" where
  "car_price car_id d =
     (case select_car car_id d of Some car \<Rightarrow> car_price_per_day car | None \<Rightarrow> 0)"

definition add_booking :: "http_method \<Rightarrow> booking_form \<Rightarrow> db \<Rightarrow> reply \<times> db" where
  "add_booking method form d =
     (if method = POST then
        (let car_id = bf_car_id form; customer_id = bf_customer_id form;
             start_date = bf_start_date form; end_date = bf_end_date form;
             price = car_price car_id d
         in case calc_total_cost price start_date end_date of
              Inl e \<Rightarrow> (Raised e, d)
            | Inr total_cost \<Rightarrow>
                (case insert_booking car_id customer_id start_date end_date total_cost ''active'' d of
                   Inl e \<Rightarrow> (Raised e, d)
                 | Inr d1 \<Rightarrow>
                     (Reply [(''Booking created.'', ''success'')] (Redirect ''view_bookings''),
                      update_car_status ''rented'' car_id d1)))
      else (Reply [] (Template ''add_booking.html''), d))"

definition add_booking_route ::
  "http_method \<Rightarrow> booking_form \<Rightarrow> app_state \<Rightarrow> reply \<times> app_state" where
  "add_booking_route method form = admin_required (add_booking method form)"

text \<open>
  \<^verbatim>\<open>
  def edit_booking(id):
      if request.method == 'POST':
          ...
          status = request.form.get('status')
          cur.execute("SELECT price_per_day FROM cars WHERE id=%s", (car_id,))
          car = cur.fetchone()
          price = float(car['price_per_day']) if car else 0
          total = calc_total_cost(price, start_date, end_date)
          cur.execute("""UPDATE bookings SET car_id=%s, customer_id=%s, start_date=%s,
                         end_date=%s, total_cost=%s, status=%s WHERE id=%s""", (..., id))
          # if completed or cancelled, set car status available if not used elsewhere
          if status in ('completed','cancelled'):
              cur.execute("UPDATE cars SET status=%s WHERE id=%s", ('available', car_id))
          flash("Booking updated.", "success")
          return redirect(url_for('view_bookings'))
      cur.execute("SELECT * FROM bookings WHERE id=%s", (id,))
      booking = cur.fetchone()
      if not booking:
          flash("Booking not found.", "danger")
          return redirect(url_for('view_bookings'))
      return render_template('edit_booking.html', ...)
  \<close>
\<close>

definition edit_booking ::
  "int \<Rightarrow> http_method \<Rightarrow> booking_form \<Rightarrow> db \<Rightarrow> reply \<times> db" where
  "edit_booking k method form d =
     (if method = POST then
        (let car_id = bf_car_id form; customer_id = bf_customer_id form;
             start_date = bf_start_date form; end_date = bf_end_date form;
             status = bf_status form;
             price = car_price car_id d
         in case calc_total_cost price start_date end_date of
              Inl e \<Rightarrow> (Raised e, d)
            | Inr total_cost \<Rightarrow>
                (case update_booking car_id customer_id start_date end_date total_cost status k d of
                   Inl e \<Rightarrow> (Raised e, d)
                 | Inr d1 \<Rightarrow>
                     (Reply [(''Booking updated.'', ''success'')] (Redirect ''view_bookings''),
                      if status = Some ''completed'' \<or> status = Some ''cancelled''
                      then update_car_status ''available'' car_id d1 else d1)))
      else (case select_booking k d of
              None \<Rightarrow>
                (Reply [(''Booking not found.'', ''danger'')] (Redirect ''view_bookings''), d)
            | Some booking \<Rightarrow> (Reply [] (Template ''edit_booking.html''), d)))"

definition edit_booking_route ::
  "int \<Rightarrow> http_method \<Rightarrow> booking_form \<Rightarrow> app_state \<Rightarrow> reply \<times> app_state" where
  "edit_booking_route k method form = admin_required (edit_booking k method form)"

text \<open>
  \<^verbatim>\<open>
  def delete_booking(id):
      # before deleting, set linked car status to available
      cur.execute("SELECT car_id FROM bookings WHERE id=%s", (id,))
      row = cur.fetchone()
      if row:
          car_id = row['car_id']
          cur.execute("UPDATE cars SET status=%s WHERE id=%s", ('available', car_id))
      cur.execute("DELETE FROM bookings WHERE id=%s", (id,))
      flash("Booking deleted.", "info")
      return redirect(url_for('view_bookings'))
  \<close>
\<close>

definition delete_booking :: "int \<Rightarrow> db \<Rightarrow> reply \<times> db" where
  "delete_booking k d =
     (let d1 = (case select_booking k d of
                  Some row \<Rightarrow> update_car_status ''available'' (Some (bk_car_id row)) d
                | None \<Rightarrow> d)
      in (Reply [(''Booking deleted.'', ''info'')] (Redirect ''view_bookings''),
          delete_booking_row k d1))"

definition delete_booking_route :: "int \<Rightarrow> app_state \<Rightarrow> reply \<times> app_state" where
  "delete_booking_route k = admin_required (delete_booking k)"

section \<open>Services\<close>

text \<open>
  \<^verbatim>\<open>
  def add_service():
      if request.method == 'POST':
          car_id = request.form.get('car_id')
          service_date = request.form.get('service_date') or None
          service_type = request.form.get('service_type')
          cost = request.form.get('cost') or 0
          remarks = request.form.get('remarks')
          cur.execute("""INSERT INTO services (car_id, service_date, service_type, cost,
                         remarks) VALUES (%s,%s,%s,%s,%s)""", (...))
          # set car to maintenance
          cur.execute("UPDATE cars SET status=%s WHERE id=%s", ('maintenance', car_id))
          flash("Service record added.", "success")
          return redirect(url_for('view_services'))
      return render_template('add_service.html', cars=cars)
  \<close>
\<close>

definition add_service :: "http_method \<Rightarrow> service_form \<Rightarrow> db \<Rightarrow> reply \<times> db" where
  "add_service method form d =
     (if method = POST then
        (let car_id = sf_car_id form in
         case insert_service car_id (py_or_none (sf_service_date form)) (sf_service_type form)
                (or_zero (sf_cost form)) (sf_remarks form) d of
           Inl e \<Rightarrow> (Raised e, d)
         | Inr d1 \<Rightarrow>
             (Reply [(''Service record added.'', ''success'')] (Redirect ''view_services''),
              update_car_status ''maintenance'' car_id d1))
      else (Reply [] (Template ''add_service.html''), d))"

definition add_service_route ::
  "http_method \<Rightarrow> service_form \<Rightarrow> app_state \<Rightarrow> reply \<times> app_state" where
  "add_service_route method form = admin_required (add_service method form)"

text \<open>
  \<^verbatim>\<open>
  def edit_service(id):
      if request.method == 'POST':
          ...
          cur.execute("""UPDATE services SET car_id=%s, service_date=%s, service_type=%s,
                         cost=%s, remarks=%s WHERE id=%s""", (..., id))
          flash("Service record updated.", "success")
          return redirect(url_for('view_services'))
      cur.execute("SELECT * FROM services WHERE id=%s", (id,))
      service = cur.fetchone()
      if not service:
          flash("Service not found.", "danger")
          return redirect(url_for('view_services'))
      return render_template('edit_service.html', service=service, cars=cars)
  \<close>
\<close>

definition edit_service ::
  "int \<Rightarrow> http_method \<Rightarrow> service_form \<Rightarrow> db \<Rightarrow> reply \<times> db" where
  "edit_service k method form d =
     (if method = POST then
        (case update_service (sf_car_id form) (py_or_none (sf_service_date form))
                (sf_service_type form) (or_zero (sf_cost form)) (sf_remarks form) k d of
           Inl e \<Rightarrow> (Raised e, d)
         | Inr d1 \<Rightarrow>
             (Reply [(''Service record updated.'', ''success'')] (Redirect ''view_services''), d1))
      else (case select_service k d of
              None \<Rightarrow>
                (Reply [(''Service not found.'', ''danger'')] (Redirect ''view_services''), d)
            | Some service \<Rightarrow> (Reply [] (Template ''edit_service.html''), d)))"

definition edit_service_route ::
  "int \<Rightarrow> http_method \<Rightarrow> service_form \<Rightarrow> app_state \<Rightarrow> reply \<times> app_state" where
  "edit_service_route k method form = admin_required (edit_service k method form)"

text \<open>
  \<^verbatim>\<open>
  def delete_service(id):
      cur.execute("DELETE FROM services WHERE id=%s", (id,))
      flash("Service record deleted.", "info")
      return redirect(url_for('view_services'))
  \<close>
\<close>

definition delete_service :: "int \<Rightarrow> db \<Rightarrow> reply \<times> db" where
  "delete_service k d =
     (Reply [(''Service record deleted.'', ''info'')] (Redirect ''view_services''),
      delete_service_row k d)"

definition delete_service_route :: "int \<Rightarrow> app_state \<Rightarrow> reply \<times> app_state" where
  "delete_service_route k = admin_required (delete_service k)"

section \<open>Referential integrity\<close>

text \<open>
  What the two foreign keys of \<^verbatim>\<open>bookings\<close> and the foreign key of
  \<^verbatim>\<open>services\<close> keep true of the store: every booking names a car and a customer
  that exist, every service names a car that exists.
\<close>

definition fk_ok :: "db \<Rightarrow> bool" where
  "fk_ok d =
     (list_all (\<lambda>b. bk_car_id b \<in> car_key ` set (rows (cars d)) \<and>
                    bk_customer_id b \<in> cust_id ` set (rows (customers d))) (rows (bookings d)) \<and>
      list_all (\<lambda>s. sv_car_id s \<in> car_key ` set (rows (cars d))) (rows (services d)))"

section \<open>A store for the examples\<close>

text \<open>
  One admin, a car under maintenance (key 1, 50 a day), a rented car (key 2, 80 a day),
  one customer, two active bookings of car 2 and one service of car 1. The examples that
  follow the theorems run the handlers on it.
\<close>

definition example_store :: db where
  "example_store =
     \<lparr>users = \<lparr>rows = [\<lparr>usr_id = 1, usr_username = ''admin'', usr_password_hash = ''salted:admin123'',
                              usr_role = Some ''admin''\<rparr>], auto_increment = 2\<rparr>,
      cars = \<lparr>rows = [\<lparr>car_key = 1, car_name = ''Swift'', car_brand = Some ''Maruti'',
                             car_model = None, car_year = Some 2020, car_price_per_day = 50,
                             car_status = ''maintenance'', car_description = None\<rparr>,
                           \<lparr>car_key = 2, car_name = ''City'', car_brand = Some ''Honda'',
                             car_model = None, car_year = None, car_price_per_day = 80,
                             car_status = ''rented'', car_description = None\<rparr>],
               auto_increment = 3\<rparr>,
      customers = \<lparr>rows = [\<lparr>cust_id = 1, cust_name = ''Asha'', cust_email = None,
                                  cust_phone = None, cust_license_no = None,
                                  cust_address = None\<rparr>], auto_increment = 2\<rparr>,
      bookings = \<lparr>rows = [\<lparr>bk_id = 1, bk_car_id = 2, bk_customer_id = 1,
                                 bk_start_date = ''2024-01-01'', bk_end_date = ''2024-01-03'',
                                 bk_total_cost = 240, bk_status = Some ''active''\<rparr>,
                               \<lparr>bk_id = 2, bk_car_id = 2, bk_customer_id = 1,
                                 bk_start_date = ''2024-01-10'', bk_end_date = ''2024-01-10'',
                                 bk_total_cost = 80, bk_status = Some ''active''\<rparr>],
                   auto_increment = 3\<rparr>,
      services = \<lparr>rows = [\<lparr>sv_id = 1, sv_car_id = 1, sv_service_date = Some ''2024-02-01'',
                                 sv_service_type = Some ''Oil change'', sv_cost = 30,
                                 sv_remarks = None\<rparr>], auto_increment = 2\<rparr>\<rparr>"

text \<open>Stand-ins for the two library functions, for the examples only.\<close>

definition example_generate_password_hash :: "string \<Rightarrow> string" where
  "example_generate_password_hash p = ''salted:'' @ p"

definition example_check_password_hash :: "string \<Rightarrow> string option \<Rightarrow> py_error + bool" where
  "example_check_password_hash h p =
     (case p of None \<Rightarrow> Inl AttributeError | Some pw \<Rightarrow> Inr (h = ''salted:'' @ pw))"

text \<open>A server with no database.\<close>

definition fresh_server :: server where
  "fresh_server =
     \<lparr>users_table = None, cars_table = None, customers_table = None, bookings_table = None,
      services_table = None\<rparr>"

text \<open>The example store with both cars at the highest price the column holds.\<close>

definition costly_store :: db where
  "costly_store =
     example_store\<lparr>cars := update_where (\<lambda>r. True)
        (\<lambda>r. r\<lparr>car_price_per_day := 99999999.99\<rparr>) (cars example_store)\<rparr>"

text \<open>The example store with nobody logged in.\<close>

definition example_state :: app_state where
  "example_state =
     \<lparr>sess = \<lparr>session_user_id = None, session_username = None\<rparr>, store = example_store\<rparr>"

definition example_booking_form :: "int \<Rightarrow> string option \<Rightarrow> string option \<Rightarrow> booking_form" where
  "example_booking_form c start_date status =
     \<lparr>bf_car_id = Some c, bf_customer_id = Some 1, bf_start_date = start_date,
      bf_end_date = Some ''2024-01-03'', bf_status = status\<rparr>"

definition example_service_form :: "int \<Rightarrow> service_form" where
  "example_service_form c =
     \<lparr>sf_car_id = Some c, sf_service_date = Some ''2024-03-01'',
      sf_service_type = Some ''Brakes'', sf_cost = Some 75, sf_remarks = None\<rparr>"

definition example_car_form :: car_form where
  "example_car_form =
     \<lparr>cf_name = Some ''Polo'', cf_brand = None, cf_model = None, cf_year = None,
      cf_price = Some 60, cf_status = None, cf_description = None\<rparr>"

definition example_customer_form :: customer_form where
  "example_customer_form =
     \<lparr>uf_name = Some ''Ravi'', uf_email = None, uf_phone = None, uf_license_no = None,
      uf_address = None\<rparr>"

section \<open>The calendar arithmetic\<close>

text \<open>
  The ordinal of a date grows with the date: the order of the triples
  (year, month, day) and the order of the ordinals agree on the dates the constructor
  accepts. This is what makes the sign of \<^verbatim>\<open>(ed - sd).days\<close> the order of the two
  dates.
\<close>

lemma div_pred:
  fixes y k :: int
  assumes "0 < k"
  shows "(y - 1) div k = y div k - (if y mod k = 0 then 1 else 0)"
proof (cases "y mod k = 0")
  case True
  then obtain q where q: "y = k * q" by (auto simp: mod_eq_0_iff_dvd)
  have "y - 1 = k * (q - 1) + (k - 1)" using q by (simp add: algebra_simps)
  then have "(y - 1) div k = q - 1"
    using assms int_div_pos_eq[of "y - 1" k "q - 1" "k - 1"] by (simp add: mult.commute)
  moreover have "y div k = q" using q assms by simp
  ultimately show ?thesis using True by simp
next
  case False
  have "y = k * (y div k) + y mod k" by simp
  then have e: "y - 1 = k * (y div k) + (y mod k - 1)" by linarith
  have "0 \<le> y mod k" "y mod k < k" using assms by simp_all
  with False have "0 \<le> y mod k - 1" "y mod k - 1 < k" by linarith+
  then have "(y - 1) div k = y div k"
    using e assms int_div_pos_eq[of "y - 1" k "y div k" "y mod k - 1"] by (simp add: mult.commute)
  then show ?thesis using False by simp
qed


lemma leap_mod_facts:
  fixes y :: int
  shows "y mod 400 = 0 \<Longrightarrow> y mod 100 = 0" and "y mod 100 = 0 \<Longrightarrow> y mod 4 = 0"
proof -
  have a: "(100::int) dvd 400" and b: "(4::int) dvd 100" by simp_all
  show "y mod 400 = 0 \<Longrightarrow> y mod 100 = 0"
    using a by (meson dvd_trans mod_eq_0_iff_dvd)
  show "y mod 100 = 0 \<Longrightarrow> y mod 4 = 0"
    using b by (meson dvd_trans mod_eq_0_iff_dvd)
qed

lemma days_before_year_Suc:
  "days_before_year (y + 1) = days_before_year y + (if is_leap y then 366 else 365)"
proof -
  have d4: "(y - 1) div 4 = y div 4 - (if y mod 4 = 0 then 1 else 0)"
    by (rule div_pred) simp
  have d100: "(y - 1) div 100 = y div 100 - (if y mod 100 = 0 then 1 else 0)"
    by (rule div_pred) simp
  have d400: "(y - 1) div 400 = y div 400 - (if y mod 400 = 0 then 1 else 0)"
    by (rule div_pred) simp
  show ?thesis
    using leap_mod_facts [of y]
    by (simp add: days_before_year_def is_leap_def Let_def d4 d100 d400)
qed

lemma days_before_year_mono_aux:
  "days_before_year y \<le> days_before_year (y + int k)"
proof (induction k)
  case 0
  then show ?case by simp
next
  case (Suc k)
  have "days_before_year (y + int (Suc k)) = days_before_year ((y + int k) + 1)"
    by (simp add: ac_simps)
  also have "\<dots> \<ge> days_before_year (y + int k)"
    by (simp add: days_before_year_Suc)
  finally show ?case using Suc.IH by linarith
qed

lemma days_before_year_mono:
  assumes "y \<le> z"
  shows "days_before_year y \<le> days_before_year z"
proof -
  have "z = y + int (nat (z - y))" using assms by simp
  then show ?thesis using days_before_year_mono_aux [of y "nat (z - y)"] by simp
qed

lemma month_cases:
  assumes "1 \<le> (m::int)" "m \<le> 12"
  shows "m = 1 \<or> m = 2 \<or> m = 3 \<or> m = 4 \<or> m = 5 \<or> m = 6 \<or> m = 7 \<or> m = 8 \<or> m = 9 \<or> m = 10 \<or> m = 11 \<or> m = 12"
  using assms by presburger

lemma days_before_month_next:
  assumes "1 \<le> m" "m \<le> 11"
  shows "days_before_month y (m + 1) = days_before_month y m + days_in_month y m"
proof -
  have "m = 1 \<or> m = 2 \<or> m = 3 \<or> m = 4 \<or> m = 5 \<or> m = 6 \<or> m = 7 \<or> m = 8 \<or> m = 9 \<or> m = 10 \<or> m = 11"
    using assms by presburger
  then show ?thesis
    by (elim disjE) (simp_all add: days_before_month_def days_in_month_def)
qed

lemma days_before_month_last:
  "days_before_month y 12 + days_in_month y 12 = (if is_leap y then 366 else 365)"
  by (simp add: days_before_month_def days_in_month_def)

lemma days_in_month_pos: "0 < days_in_month y m"
  by (simp add: days_in_month_def)

lemma days_before_month_mono_aux:
  "1 \<le> m \<Longrightarrow> m + int k \<le> 12 \<Longrightarrow> days_before_month y m \<le> days_before_month y (m + int k)"
proof (induction k)
  case 0
  then show ?case by simp
next
  case (Suc k)
  have "days_before_month y (m + int (Suc k)) = days_before_month y ((m + int k) + 1)"
    by (simp add: ac_simps)
  also have "\<dots> = days_before_month y (m + int k) + days_in_month y (m + int k)"
    using Suc.prems by (intro days_before_month_next) auto
  finally show ?case using Suc days_in_month_pos [of y "m + int k"] by simp
qed

lemma days_before_month_mono:
  assumes "1 \<le> m" "m \<le> n" "n \<le> 12"
  shows "days_before_month y m \<le> days_before_month y n"
proof -
  have "n = m + int (nat (n - m))" using assms by simp
  then show ?thesis using days_before_month_mono_aux [of m "nat (n - m)" y] assms by simp
qed

lemma days_before_month_bound:
  assumes "1 \<le> m" "m \<le> 12"
  shows "days_before_month y m + days_in_month y m \<le> (if is_leap y then 366 else 365)"
proof (cases "m = 12")
  case True
  then show ?thesis using days_before_month_last [of y] by simp
next
  case False
  then have "m \<le> 11" using assms by simp
  then have "days_before_month y m + days_in_month y m = days_before_month y (m + 1)"
    using assms days_before_month_next [of m y] by simp
  also have "\<dots> \<le> days_before_month y 12"
    using assms \<open>m \<le> 11\<close> by (intro days_before_month_mono) auto
  also have "\<dots> \<le> (if is_leap y then 366 else 365)"
    using days_before_month_last [of y] days_in_month_pos [of y 12] by linarith
  finally show ?thesis .
qed

lemma toordinal_less:
  assumes "valid_date a" "valid_date b" "date_less a b"
  shows "toordinal a < toordinal b"
proof -
  consider (y) "year a < year b"
    | (m) "year a = year b" "month a < month b"
    | (d) "year a = year b" "month a = month b" "day a < day b"
    using assms(3) by (auto simp: date_less_def)
  then show ?thesis
  proof cases
    case y
    have "toordinal a \<le> days_before_year (year a) + (if is_leap (year a) then 366 else 365)"
      using assms(1) days_before_month_bound [of "month a" "year a"]
      by (simp add: toordinal_def valid_date_def)
    also have "\<dots> = days_before_year (year a + 1)"
      by (simp add: days_before_year_Suc)
    also have "\<dots> \<le> days_before_year (year b)"
      using y by (intro days_before_year_mono) simp
    also have "\<dots> < toordinal b"
      using assms(2) days_before_month_mono [of 1 "month b" "year b"]
      by (simp add: toordinal_def valid_date_def days_before_month_def)
    finally show ?thesis .
  next
    case m
    have "days_before_month (year a) (month a) + day a
        \<le> days_before_month (year a) (month a) + days_in_month (year a) (month a)"
      using assms(1) by (simp add: valid_date_def)
    also have "\<dots> = days_before_month (year a) (month a + 1)"
      using assms(1,2) m days_before_month_next [of "month a" "year a"]
      by (simp add: valid_date_def)
    also have "\<dots> \<le> days_before_month (year b) (month b)"
      using assms(1,2) m by (simp add: valid_date_def days_before_month_mono)
    also have "\<dots> < days_before_month (year b) (month b) + day b"
      using assms(2) by (simp add: valid_date_def)
    finally show ?thesis using m by (simp add: toordinal_def)
  next
    case d
    then show ?thesis by (simp add: toordinal_def)
  qed
qed

lemma toordinal_le:
  assumes "valid_date a" "valid_date b" "date_le a b"
  shows "toordinal a \<le> toordinal b"
  using assms toordinal_less [of a b] by (auto simp: date_le_def)

lemma strptime_date_valid: "strptime_date x = Inr d \<Longrightarrow> valid_date d"
  by (auto simp: strptime_date_def Let_def split: option.splits if_splits)

section \<open>Facts about the tables and the statements\<close>

lemma rows_append_row [simp]: "rows (append_row mk t) = rows t @ [mk (auto_increment t)]"
  by (simp add: append_row_def)

lemma rows_update_where [simp]:
  "rows (update_where p f t) = map (\<lambda>r. if p r then f r else r) (rows t)"
  by (simp add: update_where_def)

lemma rows_delete_where [simp]: "rows (delete_where p t) = filter (\<lambda>r. \<not> p r) (rows t)"
  by (simp add: delete_where_def)

lemma find_map_update:
  assumes "find (\<lambda>r. key r = k) xs = Some x" and "\<And>r. key (f r) = key r"
  shows "find (\<lambda>r. key r = k) (map (\<lambda>r. if key r = k then f r else r) xs) = Some (f x)"
  using assms by (induction xs) (auto split: if_splits)

lemma select_car_update_car_status:
  assumes "select_car (Some c) d = Some car"
  shows "select_car (Some c) (update_car_status s (Some c) d) = Some (car\<lparr>car_status := s\<rparr>)"
  using assms find_map_update [of car_key c "rows (cars d)" car "\<lambda>r. r\<lparr>car_status := s\<rparr>"]
  by (simp add: select_car_def update_car_status_def)

lemma calc_total_cost_parsed:
  assumes "strptime_date start_date = Inr sd" and "strptime_date end_date = Inr ed"
  shows "calc_total_cost p start_date end_date
           = Inr (p * real_of_int (max 1 (date_diff_days ed sd + 1)))"
  using assms by (simp add: calc_total_cost_def Let_def max_def)

lemma find_None_filter:
  "find p xs = None \<Longrightarrow> filter (\<lambda>r. \<not> p r) xs = xs"
  by (induction xs) (auto split: if_splits)

lemma find_None_map:
  "find p xs = None \<Longrightarrow> map (\<lambda>r. if p r then f r else r) xs = xs"
  by (induction xs) (auto split: if_splits)

lemma find_None_matches: "find p (rows t) = None \<longleftrightarrow> \<not> matches p t"
  by (auto simp add: matches_def find_None_iff list_ex_iff)

lemma table_rows_same [simp]: "t\<lparr>rows := rows t\<rparr> = t"
  by simp

lemmas example_defs = example_store_def example_booking_form_def example_service_form_def
  example_car_form_def example_customer_form_def

lemma strptime_examples:
  "strptime_date (Some ''2024-01-01'') = Inr \<lparr>year = 2024, month = 1, day = 1\<rparr>"
  "strptime_date (Some ''2024-01-03'') = Inr \<lparr>year = 2024, month = 1, day = 3\<rparr>"
  "strptime_date (Some ''2024-02-30'') = Inl ValueError"
  "strptime_date None = Inl TypeError"
  by (simp_all add: strptime_date_def match_ymd_def is_digit_def is_digit19_def
        digit_val_def valid_date_def days_in_month_def is_leap_def)

lemma bind_err_simps [simp]:
  "bind_err (Inr x) f = f x"
  "bind_err (Inl e) f = Inl e"
  by (simp_all add: bind_err_def)

lemma bind_err_Inr_iff:
  "bind_err m f = Inr y \<longleftrightarrow> (\<exists>x. m = Inr x \<and> f x = Inr y)"
  by (cases m) simp_all

lemma varchar_fits: "length s \<le> n \<Longrightarrow> varchar n s = Inr s"
  by (simp add: varchar_def)

lemma date_column_parsed: "strptime_date (Some t) = Inr d \<Longrightarrow> date_column t = Inr t"
  by (simp add: date_column_def)

lemma strptime_date_Some: "strptime_date x = Inr d \<Longrightarrow> \<exists>t. x = Some t"
  by (cases x) (simp_all add: strptime_date_def)

lemma decimal_round_hundredths:
  "decimal_round (real_of_int c / 100 * real_of_int n) = real_of_int c / 100 * real_of_int n"
proof -
  have a: "\<lfloor>real_of_int k + 1 / 2\<rfloor> = k" for k :: int
    by linarith
  have p: "real_of_int c / 100 * real_of_int n * 100 = real_of_int (c * n)" by simp
  have m: "- (real_of_int c / 100 * real_of_int n) * 100 = real_of_int (- (c * n))" by simp
  show ?thesis
    unfolding decimal_round_def p m a by simp
qed

text \<open>What a statement that succeeds has done.\<close>

lemma insert_car_Inr:
  assumes "insert_car n b m y p s ds d = Inr d'"
  obtains mk where "d' = d\<lparr>cars := append_row mk (cars d)\<rparr>"
  using assms
  by (auto simp add: insert_car_def bind_err_Inr_iff split: prod.splits)

lemma update_car_Inr:
  assumes "update_car n b m y p s ds k d = Inr d'"
  obtains "d' = d"
  | f where "\<And>r. car_key (f r) = car_key r"
      and "d' = d\<lparr>cars := update_where (\<lambda>r. car_key r = k) f (cars d)\<rparr>"
proof (cases "matches (\<lambda>r. car_key r = k) (cars d)")
  case False
  then show ?thesis using assms that(1) by (simp add: update_car_def)
next
  case True
  with assms obtain n' b' m' y' p' s' ds' where
    "d' = d\<lparr>cars := update_where (\<lambda>r. car_key r = k)
             (\<lambda>r. r\<lparr>car_name := n', car_brand := b', car_model := m', car_year := y',
                    car_price_per_day := p', car_status := s', car_description := ds'\<rparr>)
             (cars d)\<rparr>"
    by (auto simp add: update_car_def bind_err_Inr_iff split: prod.splits)
  then show ?thesis by (intro that(2)) simp_all
qed

lemma insert_customer_Inr:
  assumes "insert_customer n e p l a d = Inr d'"
  obtains mk where "d' = d\<lparr>customers := append_row mk (customers d)\<rparr>"
  using assms
  by (auto simp add: insert_customer_def bind_err_Inr_iff split: prod.splits)

lemma update_customer_Inr:
  assumes "update_customer n e p l a k d = Inr d'"
  obtains "d' = d"
  | f where "\<And>r. cust_id (f r) = cust_id r"
      and "d' = d\<lparr>customers := update_where (\<lambda>r. cust_id r = k) f (customers d)\<rparr>"
proof (cases "matches (\<lambda>r. cust_id r = k) (customers d)")
  case False
  then show ?thesis using assms that(1) by (simp add: update_customer_def)
next
  case True
  with assms obtain n' e' p' l' a' where
    "d' = d\<lparr>customers := update_where (\<lambda>r. cust_id r = k)
             (\<lambda>r. r\<lparr>cust_name := n', cust_email := e', cust_phone := p',
                    cust_license_no := l', cust_address := a'\<rparr>) (customers d)\<rparr>"
    by (auto simp add: update_customer_def bind_err_Inr_iff split: prod.splits)
  then show ?thesis by (intro that(2)) simp_all
qed

lemma booking_columns_Inr:
  assumes "booking_columns c u sd ed t st = Inr (ck, uk, s, e, t', st')"
  shows "c = Some ck \<and> u = Some uk"
  using assms
  by (cases c; cases u) (auto simp add: booking_columns_def not_null_def bind_err_Inr_iff)

lemma insert_booking_Inr:
  assumes "insert_booking c u sd ed t st d = Inr d'"
  obtains ck uk mk where "c = Some ck" and "u = Some uk" and "booking_refs_ok c u d"
    and "\<And>i. bk_car_id (mk i) = ck \<and> bk_customer_id (mk i) = uk"
    and "d' = d\<lparr>bookings := append_row mk (bookings d)\<rparr>"
proof -
  from assms obtain ck uk s e t' st' where
    col: "booking_columns c u sd ed t (Some st) = Inr (ck, uk, s, e, t', st')"
    and ok: "booking_refs_ok c u d"
    and d': "d' = d\<lparr>bookings := append_row
            (\<lambda>i. \<lparr>bk_id = i, bk_car_id = ck, bk_customer_id = uk, bk_start_date = s,
                  bk_end_date = e, bk_total_cost = t', bk_status = st'\<rparr>)
            (bookings d)\<rparr>"
    by (auto simp add: insert_booking_def bind_err_Inr_iff split: prod.splits if_splits)
  from booking_columns_Inr [OF col] ok d' show ?thesis
    by (intro that [of ck uk]) simp_all
qed

lemma update_booking_Inr:
  assumes "update_booking c u sd ed t st k d = Inr d'"
  obtains "d' = d"
  | ck uk f where "c = Some ck" and "u = Some uk" and "booking_refs_ok c u d"
      and "\<And>r. bk_car_id (f r) = ck \<and> bk_customer_id (f r) = uk \<and> bk_id (f r) = bk_id r"
      and "d' = d\<lparr>bookings := update_where (\<lambda>r. bk_id r = k) f (bookings d)\<rparr>"
proof (cases "matches (\<lambda>r. bk_id r = k) (bookings d)")
  case False
  then show ?thesis using assms that(1) by (simp add: update_booking_def)
next
  case True
  with assms obtain ck uk s e t' st' where
    col: "booking_columns c u sd ed t st = Inr (ck, uk, s, e, t', st')"
    and ok: "booking_refs_ok c u d"
    and d': "d' = d\<lparr>bookings := update_where (\<lambda>r. bk_id r = k)
             (\<lambda>r. r\<lparr>bk_car_id := ck, bk_customer_id := uk, bk_start_date := s,
                    bk_end_date := e, bk_total_cost := t', bk_status := st'\<rparr>)
             (bookings d)\<rparr>"
    by (auto simp add: update_booking_def bind_err_Inr_iff split: prod.splits if_splits)
  from booking_columns_Inr [OF col] ok d' show ?thesis
    by (intro that(2) [of ck uk]) simp_all
qed

lemma service_columns_Inr:
  assumes "service_columns c sd ty co rem = Inr (ck, sd', ty', co', rem')"
  shows "c = Some ck"
  using assms
  by (cases c) (auto simp add: service_columns_def not_null_def bind_err_Inr_iff)

lemma insert_service_Inr:
  assumes "insert_service c sd ty co rem d = Inr d'"
  obtains ck mk where "c = Some ck" and "select_car c d \<noteq> None"
    and "\<And>i. sv_car_id (mk i) = ck"
    and "d' = d\<lparr>services := append_row mk (services d)\<rparr>"
proof -
  from assms obtain ck sd' ty' co' rem' where
    col: "service_columns c sd ty co rem = Inr (ck, sd', ty', co', rem')"
    and ok: "select_car c d \<noteq> None"
    and d': "d' = d\<lparr>services := append_row
            (\<lambda>i. \<lparr>sv_id = i, sv_car_id = ck, sv_service_date = sd',
                  sv_service_type = ty', sv_cost = co', sv_remarks = rem'\<rparr>)
            (services d)\<rparr>"
    by (auto simp add: insert_service_def bind_err_Inr_iff split: prod.splits if_splits
        simp del: not_None_eq)
  from service_columns_Inr [OF col] ok d' show ?thesis
    by (intro that [of ck]) simp_all
qed

lemma update_service_Inr:
  assumes "update_service c sd ty co rem k d = Inr d'"
  obtains "d' = d"
  | ck f where "c = Some ck" and "select_car c d \<noteq> None"
      and "\<And>r. sv_car_id (f r) = ck \<and> sv_id (f r) = sv_id r"
      and "d' = d\<lparr>services := update_where (\<lambda>r. sv_id r = k) f (services d)\<rparr>"
proof (cases "matches (\<lambda>r. sv_id r = k) (services d)")
  case False
  then show ?thesis using assms that(1) by (simp add: update_service_def)
next
  case True
  with assms obtain ck sd' ty' co' rem' where
    col: "service_columns c sd ty co rem = Inr (ck, sd', ty', co', rem')"
    and ok: "select_car c d \<noteq> None"
    and d': "d' = d\<lparr>services := update_where (\<lambda>r. sv_id r = k)
             (\<lambda>r. r\<lparr>sv_car_id := ck, sv_service_date := sd',
                    sv_service_type := ty', sv_cost := co', sv_remarks := rem'\<rparr>)
             (services d)\<rparr>"
    by (auto simp add: update_service_def bind_err_Inr_iff split: prod.splits if_splits
        simp del: not_None_eq)
  from service_columns_Inr [OF col] ok d' show ?thesis
    by (intro that(2) [of ck]) simp_all
qed

lemma update_service_frame:
  assumes "update_service c sd ty cost rem k d = Inr d'"
  shows "cars d' = cars d \<and> bookings d' = bookings d \<and> customers d' = customers d \<and>
         users d' = users d \<and> map sv_id (rows (services d')) = map sv_id (rows (services d)) \<and>
         filter (\<lambda>r. sv_id r \<noteq> k) (rows (services d'))
           = filter (\<lambda>r. sv_id r \<noteq> k) (rows (services d)) \<and>
         auto_increment (services d') = auto_increment (services d)"
  using assms
proof (cases rule: update_service_Inr)
  case 1
  then show ?thesis by simp
next
  case (2 ck f)
  have m: "map sv_id (map (\<lambda>r. if sv_id r = k then f r else r) xs) = map sv_id xs" for xs
    using 2(3) by (induction xs) auto
  have fl: "filter (\<lambda>r. sv_id r \<noteq> k) (map (\<lambda>r. if sv_id r = k then f r else r) xs)
      = filter (\<lambda>r. sv_id r \<noteq> k) xs" for xs
    using 2(3) by (induction xs) auto
  show ?thesis unfolding 2(4) using m fl by (simp add: update_where_def)
qed

lemma fk_ok_no_booking_of_missing_car:
  assumes "fk_ok d" and "\<not> matches (\<lambda>r. car_key r = k) (cars d)"
  shows "filter (\<lambda>b. bk_car_id b \<noteq> k) (rows (bookings d)) = rows (bookings d)"
    and "filter (\<lambda>s. sv_car_id s \<noteq> k) (rows (services d)) = rows (services d)"
proof -
  have no: "k \<notin> car_key ` set (rows (cars d))"
    using assms(2) by (auto simp: matches_def list_ex_iff)
  have "\<forall>b \<in> set (rows (bookings d)). bk_car_id b \<noteq> k"
    using assms(1) no by (auto simp: fk_ok_def list_all_iff)
  then show "filter (\<lambda>b. bk_car_id b \<noteq> k) (rows (bookings d)) = rows (bookings d)"
    by (simp add: filter_id_conv)
  have "\<forall>s \<in> set (rows (services d)). sv_car_id s \<noteq> k"
    using assms(1) no by (auto simp: fk_ok_def list_all_iff)
  then show "filter (\<lambda>s. sv_car_id s \<noteq> k) (rows (services d)) = rows (services d)"
    by (simp add: filter_id_conv)
qed

lemma fk_ok_no_booking_of_missing_customer:
  assumes "fk_ok d" and "\<not> matches (\<lambda>r. cust_id r = k) (customers d)"
  shows "filter (\<lambda>b. bk_customer_id b \<noteq> k) (rows (bookings d)) = rows (bookings d)"
proof -
  have no: "k \<notin> cust_id ` set (rows (customers d))"
    using assms(2) by (auto simp: matches_def list_ex_iff)
  have "\<forall>b \<in> set (rows (bookings d)). bk_customer_id b \<noteq> k"
    using assms(1) no by (auto simp: fk_ok_def list_all_iff)
  then show ?thesis by (simp add: filter_id_conv)
qed

lemma not_matches_filter:
  "\<not> matches p t \<Longrightarrow> filter (\<lambda>r. \<not> p r) (rows t) = rows t"
  by (auto simp: matches_def list_ex_iff filter_id_conv)

lemma delete_car_row_rows:
  assumes "fk_ok d"
  shows "rows (cars (delete_car_row k d)) = filter (\<lambda>r. car_key r \<noteq> k) (rows (cars d))"
    and "rows (bookings (delete_car_row k d)) = filter (\<lambda>b. bk_car_id b \<noteq> k) (rows (bookings d))"
    and "rows (services (delete_car_row k d)) = filter (\<lambda>s. sv_car_id s \<noteq> k) (rows (services d))"
    and "customers (delete_car_row k d) = customers d"
    and "users (delete_car_row k d) = users d"
  using fk_ok_no_booking_of_missing_car [OF assms, of k] not_matches_filter [of "\<lambda>r. car_key r = k" "cars d"]
  by (simp_all add: delete_car_row_def)

lemma delete_customer_row_rows:
  assumes "fk_ok d"
  shows "rows (customers (delete_customer_row k d)) = filter (\<lambda>r. cust_id r \<noteq> k) (rows (customers d))"
    and "rows (bookings (delete_customer_row k d))
           = filter (\<lambda>b. bk_customer_id b \<noteq> k) (rows (bookings d))"
    and "cars (delete_customer_row k d) = cars d"
    and "services (delete_customer_row k d) = services d"
    and "users (delete_customer_row k d) = users d"
  using fk_ok_no_booking_of_missing_customer [OF assms, of k]
    not_matches_filter [of "\<lambda>r. cust_id r = k" "customers d"]
  by (simp_all add: delete_customer_row_def)


lemma fk_ok_example_store: "fk_ok example_store"
  by (simp add: fk_ok_def example_store_def)

lemma select_None_not_matches:
  "select_car (Some k) d = None \<Longrightarrow> \<not> matches (\<lambda>r. car_key r = k) (cars d)"
  "select_customer (Some k) d = None \<Longrightarrow> \<not> matches (\<lambda>r. cust_id r = k) (customers d)"
  "select_booking k d = None \<Longrightarrow> \<not> matches (\<lambda>r. bk_id r = k) (bookings d)"
  "select_service k d = None \<Longrightarrow> \<not> matches (\<lambda>r. sv_id r = k) (services d)"
  by (simp_all add: select_car_def select_customer_def select_booking_def select_service_def
      find_None_matches)

lemma delete_missing_row:
  "select_car (Some k) d = None \<Longrightarrow> delete_car_row k d = d"
  "select_customer (Some k) d = None \<Longrightarrow> delete_customer_row k d = d"
  "select_booking k d = None \<Longrightarrow> delete_booking_row k d = d"
  "select_service k d = None \<Longrightarrow> delete_service_row k d = d"
  using not_matches_filter [of "\<lambda>r. bk_id r = k" "bookings d"]
    not_matches_filter [of "\<lambda>r. sv_id r = k" "services d"]
  by (simp_all add: select_None_not_matches delete_car_row_def delete_customer_row_def
      delete_booking_row_def delete_service_row_def delete_where_def)

lemma edit_booking_missing:
  assumes "select_booking k d = None"
    and "strptime_date (bf_start_date form) = Inr sd"
    and "strptime_date (bf_end_date form) = Inr ed"
  shows "edit_booking k POST form d
     = (Reply [(''Booking updated.'', ''success'')] (Redirect ''view_bookings''),
        if bf_status form = Some ''completed'' \<or> bf_status form = Some ''cancelled''
        then update_car_status ''available'' (bf_car_id form) d else d)"
proof -
  have "calc_total_cost (car_price (bf_car_id form) d) (bf_start_date form) (bf_end_date form)
      = Inr (car_price (bf_car_id form) d * real_of_int (max 1 (date_diff_days ed sd + 1)))"
    using assms(2,3) by (rule calc_total_cost_parsed)
  then show ?thesis
    using select_None_not_matches(3) [OF assms(1)]
    by (simp add: edit_booking_def Let_def update_booking_def)
qed

lemmas collation_defs = collate_eq_def collation_key_def upper_char_def

lemma collate_eq_refl [simp]: "collate_eq a a"
  by (simp add: collate_eq_def)

lemma select_user_None_iff:
  "select_user (Some n) d = None \<longleftrightarrow> \<not> list_ex (\<lambda>r. collate_eq (usr_username r) n) (rows (users d))"
  by (auto simp add: select_user_def find_None_iff list_ex_iff)

lemma init_db_again:
  assumes "list_ex (\<lambda>r. collate_eq (usr_username r) ADMIN_DEFAULT_USERNAME) (rows (users d))"
  shows "init_db gen (server_of d) = Inr d"
  using assms
  by (simp add: init_db_def server_of_def create_table_if_not_exists_def select_user_None_iff)

section \<open>The foreign keys hold in every state the handlers reach\<close>

text \<open>
  Each statement keeps the foreign keys (\<open>fk_ok\<close>), so each handler does, and
  \<^verbatim>\<open>init_db\<close> on a server without a database starts from a store where they hold.
\<close>

lemma select_car_Some_iff:
  "(\<exists>y. select_car (Some k) d = Some y) \<longleftrightarrow> k \<in> car_key ` set (rows (cars d))"
proof -
  have "select_car (Some k) d \<noteq> None \<longleftrightarrow> k \<in> car_key ` set (rows (cars d))"
    by (auto simp add: select_car_def find_None_iff simp del: not_None_eq)
  then show ?thesis by simp
qed

lemma select_customer_Some_iff:
  "(\<exists>y. select_customer (Some k) d = Some y) \<longleftrightarrow> k \<in> cust_id ` set (rows (customers d))"
proof -
  have "select_customer (Some k) d \<noteq> None \<longleftrightarrow> k \<in> cust_id ` set (rows (customers d))"
    by (auto simp add: select_customer_def find_None_iff simp del: not_None_eq)
  then show ?thesis by simp
qed

lemma car_keys_update:
  assumes "\<And>r. car_key (f r) = car_key r"
  shows "car_key ` set (map (\<lambda>r. if p r then f r else r) xs) = car_key ` set xs"
  using assms by (induction xs) auto

lemma cust_ids_update:
  assumes "\<And>r. cust_id (f r) = cust_id r"
  shows "cust_id ` set (map (\<lambda>r. if p r then f r else r) xs) = cust_id ` set xs"
  using assms by (induction xs) auto

lemma fk_ok_cong:
  assumes "fk_ok d"
    and "car_key ` set (rows (cars d)) \<subseteq> car_key ` set (rows (cars d'))"
    and "cust_id ` set (rows (customers d)) \<subseteq> cust_id ` set (rows (customers d'))"
    and "bookings d' = bookings d" and "services d' = services d"
  shows "fk_ok d'"
  using assms by (auto simp add: fk_ok_def list_all_iff)

lemma car_keys_update_car_status:
  "car_key ` set (rows (cars (update_car_status s i d))) = car_key ` set (rows (cars d))"
proof (cases i)
  case None
  then show ?thesis by (simp add: update_car_status_def)
next
  case (Some k)
  have "car_key ` set (map (\<lambda>r. if car_key r = k then r\<lparr>car_status := s\<rparr> else r) (rows (cars d)))
      = car_key ` set (rows (cars d))"
    by (rule car_keys_update) simp
  with Some show ?thesis by (simp add: update_car_status_def)
qed

lemma update_car_status_other_tables:
  "bookings (update_car_status s i d) = bookings d"
  "services (update_car_status s i d) = services d"
  "customers (update_car_status s i d) = customers d"
  "users (update_car_status s i d) = users d"
  by (cases i; simp add: update_car_status_def)+

lemma booking_columns_parsed:
  assumes "strptime_date (Some s) = Inr sd" and "strptime_date (Some e) = Inr ed"
    and "length st \<le> 50"
  shows "booking_columns (Some c) (Some u) (Some s) (Some e) t (Some st)
     = (if \<bar>decimal_round t\<bar> < 10 ^ 10
        then Inr (c, u, s, e, decimal_round t, Some st) else Inl DataError)"
  using assms
  by (simp add: booking_columns_def not_null_def nullable_def date_column_parsed
      decimal_column_def Let_def varchar_fits)

lemma strptime_examples_more:
  "strptime_date (Some ''2023-09-25'') = Inr \<lparr>year = 2023, month = 9, day = 25\<rparr>"
  "strptime_date (Some ''not-a-date'') = Inl ValueError"
  "strptime_date (Some ''2024-03-01'') = Inr \<lparr>year = 2024, month = 3, day = 1\<rparr>"
  by (simp_all add: strptime_date_def match_ymd_def is_digit_def is_digit19_def
        digit_val_def valid_date_def days_in_month_def is_leap_def)

lemma example_day_counts:
  "date_diff_days \<lparr>year = 2024, month = 1, day = 3\<rparr> \<lparr>year = 2024, month = 1, day = 1\<rparr> = 2"
  "date_diff_days \<lparr>year = 2024, month = 1, day = 3\<rparr> \<lparr>year = 2023, month = 9, day = 25\<rparr> = 100"
  by (simp_all add: date_diff_days_def toordinal_def days_before_month_def days_before_year_def
      is_leap_def)

lemma service_columns_example:
  "service_columns (Some 2) (py_or_none (sf_service_date (example_service_form 2)))
     (sf_service_type (example_service_form 2)) (or_zero (sf_cost (example_service_form 2)))
     (sf_remarks (example_service_form 2))
   = Inr (2, Some ''2024-03-01'', Some ''Brakes'', 75, None)"
  by (simp add: service_columns_def not_null_def nullable_def example_service_form_def
      py_or_none_def or_zero_def date_column_parsed [OF strptime_examples_more(3)]
      varchar_fits decimal_column_def decimal_round_def Let_def)

lemma seed_admin_collates:
  "seed_admin g r \<Longrightarrow> collate_eq (usr_username r) ADMIN_DEFAULT_USERNAME"
  by (simp add: seed_admin_def)

lemma fk_ok_update_car_status: "fk_ok d \<Longrightarrow> fk_ok (update_car_status s i d)"
  by (rule fk_ok_cong [of d])
    (simp_all add: car_keys_update_car_status update_car_status_other_tables)

lemma fk_ok_insert_car:
  assumes "fk_ok d" and "insert_car n b m y p s ds d = Inr d'"
  shows "fk_ok d'"
  using assms(2)
proof (cases rule: insert_car_Inr)
  case (1 mk)
  show ?thesis unfolding 1 by (rule fk_ok_cong [OF assms(1)]) auto
qed

lemma fk_ok_update_car:
  assumes "fk_ok d" and "update_car n b m y p s ds k d = Inr d'"
  shows "fk_ok d'"
  using assms(2)
proof (cases rule: update_car_Inr)
  case 1
  then show ?thesis using assms(1) by simp
next
  case (2 f)
  have "car_key ` set (map (\<lambda>r. if car_key r = k then f r else r) (rows (cars d)))
      = car_key ` set (rows (cars d))"
    using 2(1) by (rule car_keys_update)
  then show ?thesis
    unfolding 2(2) by (intro fk_ok_cong [OF assms(1)]) simp_all
qed

lemma fk_ok_delete_car_row: "fk_ok d \<Longrightarrow> fk_ok (delete_car_row k d)"
  by (auto simp add: delete_car_row_def fk_ok_def list_all_iff)

lemma fk_ok_insert_customer:
  assumes "fk_ok d" and "insert_customer n e p l a d = Inr d'"
  shows "fk_ok d'"
  using assms(2)
proof (cases rule: insert_customer_Inr)
  case (1 mk)
  show ?thesis unfolding 1 by (rule fk_ok_cong [OF assms(1)]) auto
qed

lemma fk_ok_update_customer:
  assumes "fk_ok d" and "update_customer n e p l a k d = Inr d'"
  shows "fk_ok d'"
  using assms(2)
proof (cases rule: update_customer_Inr)
  case 1
  then show ?thesis using assms(1) by simp
next
  case (2 f)
  have "cust_id ` set (map (\<lambda>r. if cust_id r = k then f r else r) (rows (customers d)))
      = cust_id ` set (rows (customers d))"
    using 2(1) by (rule cust_ids_update)
  then show ?thesis
    unfolding 2(2) by (intro fk_ok_cong [OF assms(1)]) simp_all
qed

lemma fk_ok_delete_customer_row: "fk_ok d \<Longrightarrow> fk_ok (delete_customer_row k d)"
  by (auto simp add: delete_customer_row_def fk_ok_def list_all_iff)

lemma booking_refs_ok_keys:
  assumes "booking_refs_ok (Some ck) (Some uk) d"
  shows "ck \<in> car_key ` set (rows (cars d))" and "uk \<in> cust_id ` set (rows (customers d))"
  using assms
  by (simp_all add: booking_refs_ok_def select_car_Some_iff select_customer_Some_iff)

lemma fk_ok_insert_booking:
  assumes "fk_ok d" and "insert_booking c u sd ed t s d = Inr d'"
  shows "fk_ok d'"
  using assms(2)
proof (cases rule: insert_booking_Inr)
  case (1 ck uk mk)
  then have "ck \<in> car_key ` set (rows (cars d))" "uk \<in> cust_id ` set (rows (customers d))"
    using booking_refs_ok_keys [of ck uk d] by simp_all
  then show ?thesis
    unfolding 1(5) using assms(1) 1(4) by (auto simp add: fk_ok_def list_all_iff)
qed

lemma fk_ok_update_booking:
  assumes "fk_ok d" and "update_booking c u sd ed t s k d = Inr d'"
  shows "fk_ok d'"
  using assms(2)
proof (cases rule: update_booking_Inr)
  case 1
  then show ?thesis using assms(1) by simp
next
  case (2 ck uk f)
  then have "ck \<in> car_key ` set (rows (cars d))" "uk \<in> cust_id ` set (rows (customers d))"
    using booking_refs_ok_keys [of ck uk d] by simp_all
  then show ?thesis
    unfolding 2(5) using assms(1) 2(4) by (auto simp add: fk_ok_def list_all_iff)
qed

lemma fk_ok_delete_booking_row: "fk_ok d \<Longrightarrow> fk_ok (delete_booking_row k d)"
  by (auto simp add: delete_booking_row_def fk_ok_def list_all_iff)

lemma fk_ok_insert_service:
  assumes "fk_ok d" and "insert_service c sd ty cost rem d = Inr d'"
  shows "fk_ok d'"
  using assms(2)
proof (cases rule: insert_service_Inr)
  case (1 ck mk)
  then have "\<exists>y. select_car (Some ck) d = Some y" by simp
  then have "ck \<in> car_key ` set (rows (cars d))"
    by (simp add: select_car_Some_iff)
  then show ?thesis
    unfolding 1(4) using assms(1) 1(3) by (auto simp add: fk_ok_def list_all_iff)
qed

lemma fk_ok_update_service:
  assumes "fk_ok d" and "update_service c sd ty cost rem k d = Inr d'"
  shows "fk_ok d'"
  using assms(2)
proof (cases rule: update_service_Inr)
  case 1
  then show ?thesis using assms(1) by simp
next
  case (2 ck f)
  then have "\<exists>y. select_car (Some ck) d = Some y" by simp
  then have "ck \<in> car_key ` set (rows (cars d))"
    by (simp add: select_car_Some_iff)
  then show ?thesis
    unfolding 2(4) using assms(1) 2(3) by (auto simp add: fk_ok_def list_all_iff)
qed

lemma fk_ok_delete_service_row: "fk_ok d \<Longrightarrow> fk_ok (delete_service_row k d)"
  by (auto simp add: delete_service_row_def fk_ok_def list_all_iff)

theorem handlers_keep_foreign_keys:
  assumes "fk_ok d"
  shows "fk_ok (snd (add_car m cform d))"
    and "fk_ok (snd (edit_car k m cform d))"
    and "fk_ok (snd (delete_car k d))"
    and "fk_ok (snd (add_customer m uform d))"
    and "fk_ok (snd (edit_customer k m uform d))"
    and "fk_ok (snd (delete_customer k d))"
    and "fk_ok (snd (add_booking m bform d))"
    and "fk_ok (snd (edit_booking k m bform d))"
    and "fk_ok (snd (delete_booking k d))"
    and "fk_ok (snd (add_service m sform d))"
    and "fk_ok (snd (edit_service k m sform d))"
    and "fk_ok (snd (delete_service k d))"
proof -
  show "fk_ok (snd (add_car m cform d))"
    using assms by (auto simp add: add_car_def split: sum.splits dest: fk_ok_insert_car)
  show "fk_ok (snd (edit_car k m cform d))"
    using assms
    by (auto simp add: edit_car_def split: sum.splits option.splits dest: fk_ok_update_car)
  show "fk_ok (snd (delete_car k d))"
    using assms by (simp add: delete_car_def fk_ok_delete_car_row)
  show "fk_ok (snd (add_customer m uform d))"
    using assms by (auto simp add: add_customer_def split: sum.splits dest: fk_ok_insert_customer)
  show "fk_ok (snd (edit_customer k m uform d))"
    using assms
    by (auto simp add: edit_customer_def split: sum.splits option.splits
        dest: fk_ok_update_customer)
  show "fk_ok (snd (delete_customer k d))"
    using assms by (simp add: delete_customer_def fk_ok_delete_customer_row)
  show "fk_ok (snd (add_booking m bform d))"
    using assms
    by (auto simp add: add_booking_def Let_def split: sum.splits
        intro!: fk_ok_update_car_status dest: fk_ok_insert_booking)
  show "fk_ok (snd (edit_booking k m bform d))"
    using assms
    by (auto simp add: edit_booking_def Let_def split: sum.splits option.splits
        intro!: fk_ok_update_car_status dest: fk_ok_update_booking)
  show "fk_ok (snd (delete_booking k d))"
    using assms
    by (auto simp add: delete_booking_def Let_def split: option.splits
        intro!: fk_ok_delete_booking_row fk_ok_update_car_status)
  show "fk_ok (snd (add_service m sform d))"
    using assms
    by (auto simp add: add_service_def Let_def split: sum.splits
        intro!: fk_ok_update_car_status dest: fk_ok_insert_service)
  show "fk_ok (snd (edit_service k m sform d))"
    using assms
    by (auto simp add: edit_service_def split: sum.splits option.splits
        dest: fk_ok_update_service)
  show "fk_ok (snd (delete_service k d))"
    using assms by (simp add: delete_service_def fk_ok_delete_service_row)
qed

theorem init_db_foreign_keys:
  assumes "length (gen ADMIN_DEFAULT_PASSWORD) \<le> 255"
  shows "\<exists>d. init_db gen fresh_server = Inr d \<and> fk_ok d"
  using assms
  by (simp add: init_db_def fresh_server_def create_table_if_not_exists_def select_user_def
      insert_user_def matches_def append_row_def fk_ok_def Let_def varchar_fits
      ADMIN_DEFAULT_USERNAME_def)

section \<open>No handler writes the users table\<close>

lemma users_kept:
  "insert_car n b m y p s ds d = Inr d' \<Longrightarrow> users d' = users d"
  "update_car n b m y p s ds k d = Inr d' \<Longrightarrow> users d' = users d"
  "insert_customer n e ph l a d = Inr d' \<Longrightarrow> users d' = users d"
  "update_customer n e ph l a k d = Inr d' \<Longrightarrow> users d' = users d"
  "insert_booking c u sd ed t st d = Inr d' \<Longrightarrow> users d' = users d"
  "update_booking c u sd ed t sto k d = Inr d' \<Longrightarrow> users d' = users d"
  "insert_service c sdo ty co rem d = Inr d' \<Longrightarrow> users d' = users d"
  "update_service c sdo ty co rem k d = Inr d' \<Longrightarrow> users d' = users d"
  by (auto elim: insert_car_Inr update_car_Inr insert_customer_Inr update_customer_Inr
      insert_booking_Inr update_booking_Inr insert_service_Inr update_service_Inr)

theorem handlers_leave_users:
  "users (snd (add_car m cform d)) = users d"
  "users (snd (edit_car k m cform d)) = users d"
  "users (snd (delete_car k d)) = users d"
  "users (snd (add_customer m uform d)) = users d"
  "users (snd (edit_customer k m uform d)) = users d"
  "users (snd (delete_customer k d)) = users d"
  "users (snd (add_booking m bform d)) = users d"
  "users (snd (edit_booking k m bform d)) = users d"
  "users (snd (delete_booking k d)) = users d"
  "users (snd (add_service m sform d)) = users d"
  "users (snd (edit_service k m sform d)) = users d"
  "users (snd (delete_service k d)) = users d"
  "store (snd (login chk m lform st)) = store st"
  "store (snd (logout st)) = store st"
proof -
  show "users (snd (add_car m cform d)) = users d"
    by (auto simp add: add_car_def split: sum.splits dest: users_kept)
  show "users (snd (edit_car k m cform d)) = users d"
    by (auto simp add: edit_car_def split: sum.splits option.splits dest: users_kept)
  show "users (snd (delete_car k d)) = users d"
    by (simp add: delete_car_def delete_car_row_def)
  show "users (snd (add_customer m uform d)) = users d"
    by (auto simp add: add_customer_def split: sum.splits dest: users_kept)
  show "users (snd (edit_customer k m uform d)) = users d"
    by (auto simp add: edit_customer_def split: sum.splits option.splits dest: users_kept)
  show "users (snd (delete_customer k d)) = users d"
    by (simp add: delete_customer_def delete_customer_row_def)
  show "users (snd (add_booking m bform d)) = users d"
    by (auto simp add: add_booking_def Let_def update_car_status_other_tables
        split: sum.splits dest: users_kept)
  show "users (snd (edit_booking k m bform d)) = users d"
    by (auto simp add: edit_booking_def Let_def update_car_status_other_tables
        split: sum.splits option.splits dest: users_kept)
  show "users (snd (delete_booking k d)) = users d"
    by (simp add: delete_booking_def Let_def delete_booking_row_def
        update_car_status_other_tables split: option.splits)
  show "users (snd (add_service m sform d)) = users d"
    by (auto simp add: add_service_def Let_def update_car_status_other_tables
        split: sum.splits dest: users_kept)
  show "users (snd (edit_service k m sform d)) = users d"
    by (auto simp add: edit_service_def split: sum.splits option.splits dest: users_kept)
  show "users (snd (delete_service k d)) = users d"
    by (simp add: delete_service_def delete_service_row_def)
  show "store (snd (login chk m lform st)) = store st"
    by (simp add: login_def Let_def split: option.splits sum.splits)
  show "store (snd (logout st)) = store st"
    by (simp add: logout_def)
qed

section \<open>The login check in front of the handlers\<close>

lemma admin_required_logged_in:
  assumes "session_user_id (sess st) \<noteq> None"
  shows "admin_required func st = (fst (func (store st)), st\<lparr>store := snd (func (store st))\<rparr>)"
proof -
  obtain y where "session_user_id (sess st) = Some y" using assms by auto
  then show ?thesis by (simp add: admin_required_def split: prod.splits)
qed

lemma admin_required_anonymous:
  assumes "session_user_id (sess st) = None"
  shows "admin_required func st
           = (Reply [(''Please login first.'', ''warning'')] (Redirect ''login''), st)"
  using assms by (simp add: admin_required_def)

lemma admin_required_fk_ok:
  assumes "fk_ok (store st)" and "\<And>d. fk_ok d \<Longrightarrow> fk_ok (snd (func d))"
  shows "fk_ok (store (snd (admin_required func st)))"
proof (cases "session_user_id (sess st)")
  case None
  then show ?thesis using assms(1) by (simp add: admin_required_def)
next
  case (Some y)
  then have "store (snd (admin_required func st)) = snd (func (store st))"
    by (simp add: admin_required_def split: prod.splits)
  then show ?thesis using assms by simp
qed

theorem routes_need_a_session:
  assumes "session_user_id (sess st) = None"
  shows "add_booking_route m bform st
           = (Reply [(''Please login first.'', ''warning'')] (Redirect ''login''), st)"
    and "edit_booking_route k m bform st
           = (Reply [(''Please login first.'', ''warning'')] (Redirect ''login''), st)"
    and "delete_booking_route k st
           = (Reply [(''Please login first.'', ''warning'')] (Redirect ''login''), st)"
    and "delete_car_route k st
           = (Reply [(''Please login first.'', ''warning'')] (Redirect ''login''), st)"
    and "delete_customer_route k st
           = (Reply [(''Please login first.'', ''warning'')] (Redirect ''login''), st)"
    and "add_service_route m sform st
           = (Reply [(''Please login first.'', ''warning'')] (Redirect ''login''), st)"
  using assms
  by (simp_all add: add_booking_route_def edit_booking_route_def delete_booking_route_def
      delete_car_route_def delete_customer_route_def add_service_route_def
      admin_required_anonymous)

section \<open>The rental cost is the price times the inclusive day count, at least one day\<close>

text \<open>
  C1. For every price and every pair of dates (texts that \<^verbatim>\<open>strptime\<close> reads as the
  dates \<open>sd\<close> and \<open>ed\<close>), \<^verbatim>\<open>calc_total_cost\<close> returns the price times
  \<open>max 1 ((ed - sd).days + 1)\<close>: when the end date is not before the start date this is
  the price times \<open>(ed - sd).days + 1\<close>, both end points counted, and when the end date
  is before the start date it is the price times 1.
\<close>

theorem calc_total_cost_days:
  assumes "strptime_date start_date = Inr sd" and "strptime_date end_date = Inr ed"
  shows "calc_total_cost p start_date end_date
           = Inr (p * real_of_int (max 1 (date_diff_days ed sd + 1)))
       \<and> (date_le sd ed \<longrightarrow>
            calc_total_cost p start_date end_date = Inr (p * real_of_int (date_diff_days ed sd + 1)))
       \<and> (date_less ed sd \<longrightarrow> calc_total_cost p start_date end_date = Inr (p * 1))"
proof -
  have vs: "valid_date sd" and ve: "valid_date ed"
    using assms by (auto dest: strptime_date_valid)
  have eq: "calc_total_cost p start_date end_date
           = Inr (p * real_of_int (max 1 (date_diff_days ed sd + 1)))"
    using assms by (simp add: calc_total_cost_def Let_def max_def)
  have ge: "date_le sd ed \<Longrightarrow> max 1 (date_diff_days ed sd + 1) = date_diff_days ed sd + 1"
    using toordinal_le [OF vs ve] by (simp add: date_diff_days_def)
  have lt: "date_less ed sd \<Longrightarrow> max 1 (date_diff_days ed sd + 1) = 1"
    using toordinal_less [OF ve vs] by (simp add: date_diff_days_def)
  show ?thesis using eq ge lt by simp
qed

theorem calc_total_cost_days_witness:
  "calc_total_cost 50 (Some ''2024-01-01'') (Some ''2024-01-03'') = Inr 150
   \<and> calc_total_cost 50 (Some ''2024-01-05'') (Some ''2024-01-05'') = Inr 50
   \<and> calc_total_cost 50 (Some ''2024-01-05'') (Some ''2023-12-31'') = Inr 50"
proof -
  let ?d = "\<lambda>y m d. \<lparr>year = y, month = m, day = d\<rparr>"
  have p1: "strptime_date (Some ''2024-01-01'') = Inr (?d 2024 1 1)"
    and p3: "strptime_date (Some ''2024-01-03'') = Inr (?d 2024 1 3)"
    and p5: "strptime_date (Some ''2024-01-05'') = Inr (?d 2024 1 5)"
    and p31: "strptime_date (Some ''2023-12-31'') = Inr (?d 2023 12 31)"
    by (simp_all add: strptime_date_def match_ymd_def is_digit_def is_digit19_def
        digit_val_def valid_date_def days_in_month_def is_leap_def)
  have o: "date_diff_days (?d 2024 1 3) (?d 2024 1 1) = 2"
    "date_diff_days (?d 2024 1 5) (?d 2024 1 5) = 0"
    by (simp_all add: date_diff_days_def toordinal_def days_before_month_def)
  have a: "calc_total_cost 50 (Some ''2024-01-01'') (Some ''2024-01-03'') = Inr 150"
    using calc_total_cost_days [OF p1 p3, of 50] o by (simp add: date_le_def date_less_def)
  have b: "calc_total_cost 50 (Some ''2024-01-05'') (Some ''2024-01-05'') = Inr 50"
    using calc_total_cost_days [OF p5 p5, of 50] o by (simp add: date_le_def)
  have c: "calc_total_cost 50 (Some ''2024-01-05'') (Some ''2023-12-31'') = Inr 50"
    using calc_total_cost_days [OF p5 p31, of 50, THEN conjunct2, THEN conjunct2]
    by (simp add: date_less_def)
  show ?thesis using a b c by simp
qed

section \<open>Creating a booking\<close>




section \<open>Closing or deleting a booking\<close>




section \<open>Creating a service record\<close>




section \<open>Editing and deleting a service record\<close>

text \<open>
  C5. For every service update (whatever the method, the form and the outcome of the
  request) and every service deletion, the table of cars is left as it was, and so is
  the status of every car. An update changes service rows with the key of the request
  only and keeps every key; a deletion removes the service rows with that key and nothing
  else. The tables of bookings, customers and users are untouched.
\<close>

theorem service_edit_and_delete_leave_cars_alone:
  "(case edit_service k meth form d of (r, d') \<Rightarrow>
      cars d' = cars d \<and> bookings d' = bookings d \<and> customers d' = customers d \<and>
      users d' = users d \<and>
      map sv_id (rows (services d')) = map sv_id (rows (services d)) \<and>
      filter (\<lambda>r. sv_id r \<noteq> k) (rows (services d'))
        = filter (\<lambda>r. sv_id r \<noteq> k) (rows (services d)))
   \<and> (case delete_service k d of (r, d') \<Rightarrow>
      r = Reply [(''Service record deleted.'', ''info'')] (Redirect ''view_services'') \<and>
      cars d' = cars d \<and> bookings d' = bookings d \<and> customers d' = customers d \<and>
      users d' = users d \<and>
      rows (services d') = filter (\<lambda>r. sv_id r \<noteq> k) (rows (services d)))"
proof (rule conjI)
  show "case edit_service k meth form d of (r, d') \<Rightarrow>
      cars d' = cars d \<and> bookings d' = bookings d \<and> customers d' = customers d \<and>
      users d' = users d \<and>
      map sv_id (rows (services d')) = map sv_id (rows (services d)) \<and>
      filter (\<lambda>r. sv_id r \<noteq> k) (rows (services d'))
        = filter (\<lambda>r. sv_id r \<noteq> k) (rows (services d))"
  proof (cases "update_service (sf_car_id form) (py_or_none (sf_service_date form))
                (sf_service_type form) (or_zero (sf_cost form)) (sf_remarks form) k d")
    case (Inl e)
    then show ?thesis by (simp add: edit_service_def split: option.splits)
  next
    case (Inr d1)
    from update_service_frame [OF Inr] Inr show ?thesis
      by (simp add: edit_service_def split: option.splits)
  qed
  show "case delete_service k d of (r, d') \<Rightarrow>
      r = Reply [(''Service record deleted.'', ''info'')] (Redirect ''view_services'') \<and>
      cars d' = cars d \<and> bookings d' = bookings d \<and> customers d' = customers d \<and>
      users d' = users d \<and>
      rows (services d') = filter (\<lambda>r. sv_id r \<noteq> k) (rows (services d))"
    by (simp add: delete_service_def delete_service_row_def)
qed

text \<open>
  On the example store: moving service 1 to the rented car 2, and deleting service 1 of
  the car under maintenance, both leave the two cars as they were.
\<close>

theorem service_edit_and_delete_leave_cars_alone_witness:
  "(case edit_service 1 POST (example_service_form 2) example_store of (r, d') \<Rightarrow>
      r = Reply [(''Service record updated.'', ''success'')] (Redirect ''view_services'') \<and>
      map sv_car_id (rows (services d')) = [2] \<and>
      map car_status (rows (cars d')) = [''maintenance'', ''rented''])
   \<and> (case delete_service 1 example_store of (r, d') \<Rightarrow>
      rows (services d') = [] \<and>
      map car_status (rows (cars d')) = [''maintenance'', ''rented''])"
proof -
  note t = service_edit_and_delete_leave_cars_alone
    [where k = 1 and meth = POST and form = "example_service_form 2" and d = example_store]
  have c: "map car_status (rows (cars example_store)) = [''maintenance'', ''rented'']"
    by (simp add: example_store_def)
  have m: "matches (\<lambda>r. sv_id r = 1) (services example_store)"
    by (simp add: matches_def example_store_def)
  have sc: "select_car (Some 2) example_store \<noteq> None"
    by (simp add: select_car_def example_store_def)
  have e: "fst (edit_service 1 POST (example_service_form 2) example_store)
        = Reply [(''Service record updated.'', ''success'')] (Redirect ''view_services'')
      \<and> map sv_car_id (rows (services (snd
           (edit_service 1 POST (example_service_form 2) example_store)))) = [2]"
    using m sc
    by (simp add: edit_service_def update_service_def service_columns_example
        example_service_form_def [of 2, THEN arg_cong, of sf_car_id] example_store_def)
  have s: "rows (services example_store) = [\<lparr>sv_id = 1, sv_car_id = 1,
      sv_service_date = Some ''2024-02-01'', sv_service_type = Some ''Oil change'',
      sv_cost = 30, sv_remarks = None\<rparr>]"
    by (simp add: example_store_def)
  have 1: "case edit_service 1 POST (example_service_form 2) example_store of (r, d') \<Rightarrow>
      r = Reply [(''Service record updated.'', ''success'')] (Redirect ''view_services'') \<and>
      map sv_car_id (rows (services d')) = [2] \<and>
      map car_status (rows (cars d')) = [''maintenance'', ''rented'']"
    using t [THEN conjunct1] e c by (simp split: prod.splits)
  have 2: "case delete_service 1 example_store of (r, d') \<Rightarrow>
      rows (services d') = [] \<and>
      map car_status (rows (cars d')) = [''maintenance'', ''rented'']"
    using t [THEN conjunct2] c s by (simp split: prod.splits)
  show ?thesis using 1 2 by (rule conjI)
qed

section \<open>Deleting a car or a customer\<close>

text \<open>
  C6. For every state of the store (one in which the foreign keys hold, as the server
  keeps them), deleting a car removes the cars with that key, every booking and every
  service whose \<^verbatim>\<open>car_id\<close> is that key, and no other row; deleting a customer removes
  the customers with that key, every booking whose \<^verbatim>\<open>customer_id\<close> is that key, and no
  other row.
\<close>

theorem delete_cascades:
  assumes "fk_ok d"
  shows "(case delete_car k d of (r, d') \<Rightarrow>
      r = Reply [(''Car deleted.'', ''info'')] (Redirect ''view_cars'') \<and>
      rows (cars d') = filter (\<lambda>r. car_key r \<noteq> k) (rows (cars d)) \<and>
      rows (bookings d') = filter (\<lambda>b. bk_car_id b \<noteq> k) (rows (bookings d)) \<and>
      rows (services d') = filter (\<lambda>s. sv_car_id s \<noteq> k) (rows (services d)) \<and>
      customers d' = customers d \<and> users d' = users d)
   \<and> (case delete_customer k d of (r, d') \<Rightarrow>
      r = Reply [(''Customer deleted.'', ''info'')] (Redirect ''view_customers'') \<and>
      rows (customers d') = filter (\<lambda>r. cust_id r \<noteq> k) (rows (customers d)) \<and>
      rows (bookings d') = filter (\<lambda>b. bk_customer_id b \<noteq> k) (rows (bookings d)) \<and>
      cars d' = cars d \<and> services d' = services d \<and> users d' = users d)"
  using delete_car_row_rows [OF assms, of k] delete_customer_row_rows [OF assms, of k]
  by (simp add: delete_car_def delete_customer_def)

text \<open>
  On the example store: deleting car 2 takes its two bookings with it and leaves the
  service of car 1; deleting customer 1 takes both bookings; deleting a car that is not
  there removes nothing.
\<close>

theorem delete_cascades_witness:
  "(case delete_car 2 example_store of (r, d') \<Rightarrow>
      map car_key (rows (cars d')) = [1] \<and> rows (bookings d') = [] \<and>
      map sv_id (rows (services d')) = [1] \<and> map cust_id (rows (customers d')) = [1])
   \<and> (case delete_customer 1 example_store of (r, d') \<Rightarrow>
      rows (customers d') = [] \<and> rows (bookings d') = [] \<and>
      map car_key (rows (cars d')) = [1, 2] \<and> map sv_id (rows (services d')) = [1])
   \<and> (case delete_car 7 example_store of (r, d') \<Rightarrow>
      map car_key (rows (cars d')) = [1, 2] \<and> map bk_id (rows (bookings d')) = [1, 2] \<and>
      map sv_id (rows (services d')) = [1])"
proof -
  have 1: "case delete_car 2 example_store of (r, d') \<Rightarrow>
      map car_key (rows (cars d')) = [1] \<and> rows (bookings d') = [] \<and>
      map sv_id (rows (services d')) = [1] \<and> map cust_id (rows (customers d')) = [1]"
    using delete_cascades [OF fk_ok_example_store, of 2, THEN conjunct1]
    by (simp add: example_store_def split: prod.splits)
  have 2: "case delete_customer 1 example_store of (r, d') \<Rightarrow>
      rows (customers d') = [] \<and> rows (bookings d') = [] \<and>
      map car_key (rows (cars d')) = [1, 2] \<and> map sv_id (rows (services d')) = [1]"
    using delete_cascades [OF fk_ok_example_store, of 1, THEN conjunct2]
    by (simp add: example_store_def split: prod.splits)
  have 3: "case delete_car 7 example_store of (r, d') \<Rightarrow>
      map car_key (rows (cars d')) = [1, 2] \<and> map bk_id (rows (bookings d')) = [1, 2] \<and>
      map sv_id (rows (services d')) = [1]"
    using delete_cascades [OF fk_ok_example_store, of 7, THEN conjunct1]
    by (simp add: example_store_def split: prod.splits)
  show ?thesis using 1 2 3 by (intro conjI)
qed

section \<open>Requests for a key that is not in the store\<close>

text \<open>
  C7, as the handlers have it. For every entity and every key that is not in the store:
  a GET edit flashes the entity's not-found notice and redirects to its list view; a POST
  delete flashes the deleted notice and redirects there; a POST edit flashes the updated
  notice and redirects there, for a booking when the two submitted dates parse. The store
  is unchanged where the reply is given in full.
\<close>

theorem missing_id_notice_and_redirect:
  "(select_car (Some k) d = None \<longrightarrow>
      edit_car k GET cform d
        = (Reply [(''Car not found.'', ''danger'')] (Redirect ''view_cars''), d) \<and>
      edit_car k POST cform d
        = (Reply [(''Car updated.'', ''success'')] (Redirect ''view_cars''), d) \<and>
      delete_car k d = (Reply [(''Car deleted.'', ''info'')] (Redirect ''view_cars''), d))
   \<and> (select_customer (Some k) d = None \<longrightarrow>
      edit_customer k GET uform d
        = (Reply [(''Customer not found.'', ''danger'')] (Redirect ''view_customers''), d) \<and>
      edit_customer k POST uform d
        = (Reply [(''Customer updated.'', ''success'')] (Redirect ''view_customers''), d) \<and>
      delete_customer k d
        = (Reply [(''Customer deleted.'', ''info'')] (Redirect ''view_customers''), d))
   \<and> (select_booking k d = None \<longrightarrow>
      edit_booking k GET bform d
        = (Reply [(''Booking not found.'', ''danger'')] (Redirect ''view_bookings''), d) \<and>
      (strptime_date (bf_start_date bform) = Inr sd \<and>
       strptime_date (bf_end_date bform) = Inr ed \<longrightarrow>
         fst (edit_booking k POST bform d)
           = Reply [(''Booking updated.'', ''success'')] (Redirect ''view_bookings'')) \<and>
      delete_booking k d
        = (Reply [(''Booking deleted.'', ''info'')] (Redirect ''view_bookings''), d))
   \<and> (select_service k d = None \<longrightarrow>
      edit_service k GET sform d
        = (Reply [(''Service not found.'', ''danger'')] (Redirect ''view_services''), d) \<and>
      edit_service k POST sform d
        = (Reply [(''Service record updated.'', ''success'')] (Redirect ''view_services''), d) \<and>
      delete_service k d
        = (Reply [(''Service record deleted.'', ''info'')] (Redirect ''view_services''), d))"
proof (intro conjI impI)
  assume a: "select_car (Some k) d = None"
  show "edit_car k GET cform d
        = (Reply [(''Car not found.'', ''danger'')] (Redirect ''view_cars''), d)"
    using a by (simp add: edit_car_def)
  show "edit_car k POST cform d
        = (Reply [(''Car updated.'', ''success'')] (Redirect ''view_cars''), d)"
    using select_None_not_matches(1) [OF a] by (simp add: edit_car_def update_car_def)
  show "delete_car k d = (Reply [(''Car deleted.'', ''info'')] (Redirect ''view_cars''), d)"
    using delete_missing_row(1) [OF a] by (simp add: delete_car_def)
next
  assume a: "select_customer (Some k) d = None"
  show "edit_customer k GET uform d
        = (Reply [(''Customer not found.'', ''danger'')] (Redirect ''view_customers''), d)"
    using a by (simp add: edit_customer_def)
  show "edit_customer k POST uform d
        = (Reply [(''Customer updated.'', ''success'')] (Redirect ''view_customers''), d)"
    using select_None_not_matches(2) [OF a] by (simp add: edit_customer_def update_customer_def)
  show "delete_customer k d
        = (Reply [(''Customer deleted.'', ''info'')] (Redirect ''view_customers''), d)"
    using delete_missing_row(2) [OF a] by (simp add: delete_customer_def)
next
  assume a: "select_booking k d = None"
  show "edit_booking k GET bform d
        = (Reply [(''Booking not found.'', ''danger'')] (Redirect ''view_bookings''), d)"
    using a by (simp add: edit_booking_def)
  show "delete_booking k d
        = (Reply [(''Booking deleted.'', ''info'')] (Redirect ''view_bookings''), d)"
    using a delete_missing_row(3) [OF a] by (simp add: delete_booking_def)
  assume "strptime_date (bf_start_date bform) = Inr sd \<and>
       strptime_date (bf_end_date bform) = Inr ed"
  then show "fst (edit_booking k POST bform d)
           = Reply [(''Booking updated.'', ''success'')] (Redirect ''view_bookings'')"
    using edit_booking_missing [OF a, of bform sd ed] by simp
next
  assume a: "select_service k d = None"
  show "edit_service k GET sform d
        = (Reply [(''Service not found.'', ''danger'')] (Redirect ''view_services''), d)"
    using a by (simp add: edit_service_def)
  show "edit_service k POST sform d
        = (Reply [(''Service record updated.'', ''success'')] (Redirect ''view_services''), d)"
    using select_None_not_matches(4) [OF a] by (simp add: edit_service_def update_service_def)
  show "delete_service k d
        = (Reply [(''Service record deleted.'', ''info'')] (Redirect ''view_services''), d)"
    using delete_missing_row(4) [OF a] by (simp add: delete_service_def)
qed

theorem missing_id_notice_and_redirect_witness:
  "edit_car 99 GET example_car_form example_store
     = (Reply [(''Car not found.'', ''danger'')] (Redirect ''view_cars''), example_store)
   \<and> edit_car 99 POST example_car_form example_store
     = (Reply [(''Car updated.'', ''success'')] (Redirect ''view_cars''), example_store)
   \<and> delete_customer 99 example_store
     = (Reply [(''Customer deleted.'', ''info'')] (Redirect ''view_customers''), example_store)
   \<and> edit_booking 99 GET (example_booking_form 2 (Some ''2024-01-01'') None) example_store
     = (Reply [(''Booking not found.'', ''danger'')] (Redirect ''view_bookings''), example_store)
   \<and> fst (edit_booking 99 POST (example_booking_form 2 (Some ''2024-01-01'') None) example_store)
     = Reply [(''Booking updated.'', ''success'')] (Redirect ''view_bookings'')
   \<and> delete_service 99 example_store
     = (Reply [(''Service record deleted.'', ''info'')] (Redirect ''view_services''), example_store)"
proof -
  let ?bform = "example_booking_form 2 (Some ''2024-01-01'') None"
  note t = missing_id_notice_and_redirect
    [where k = 99 and d = example_store and cform = example_car_form
       and uform = example_customer_form and bform = ?bform
       and sform = "example_service_form 1"
       and sd = "\<lparr>year = 2024, month = 1, day = 1\<rparr>"
       and ed = "\<lparr>year = 2024, month = 1, day = 3\<rparr>"]
  have c: "select_car (Some 99) example_store = None"
    by (simp add: select_car_def example_store_def)
  have u: "select_customer (Some 99) example_store = None"
    by (simp add: select_customer_def example_store_def)
  have b: "select_booking 99 example_store = None"
    by (simp add: select_booking_def example_store_def)
  have s: "select_service 99 example_store = None"
    by (simp add: select_service_def example_store_def)
  have p: "strptime_date (bf_start_date ?bform) = Inr \<lparr>year = 2024, month = 1, day = 1\<rparr> \<and>
       strptime_date (bf_end_date ?bform) = Inr \<lparr>year = 2024, month = 1, day = 3\<rparr>"
    by (simp add: example_booking_form_def strptime_examples)
  from t c u b s p show ?thesis by simp
qed

text \<open>
  C7 as it is stated does not hold of a POST edit of a booking: the handler computes the
  cost before it looks for the booking, and a date that \<^verbatim>\<open>strptime\<close> refuses (here the
  30th of February) ends the request with a \<^verbatim>\<open>ValueError\<close>, not with a notice and a
  redirect.
\<close>

theorem missing_booking_bad_date_raises:
  "select_booking 99 example_store = None
   \<and> edit_booking 99 POST (example_booking_form 2 (Some ''2024-02-30'') (Some ''active''))
         example_store = (Raised ValueError, example_store)"
  by (simp add: select_booking_def example_store_def edit_booking_def Let_def
      calc_total_cost_def example_booking_form_def strptime_examples)

section \<open>Editing a booking that is not in the store\<close>

text \<open>
  C10, as the handler has it. For every booking-edit POST whose key is not in the store
  and whose two submitted dates parse: no table but the cars changes (no booking row in
  particular), the reply is the updated notice and the redirect, and when the submitted
  status is \<open>completed\<close> or \<open>cancelled\<close> the cars with the submitted
  \<^verbatim>\<open>car_id\<close> get the status \<open>available\<close>.
\<close>

theorem edit_missing_booking_frees_car:
  assumes "select_booking k d = None"
    and "strptime_date (bf_start_date form) = Inr sd"
    and "strptime_date (bf_end_date form) = Inr ed"
  shows "case edit_booking k POST form d of (r, d') \<Rightarrow>
      r = Reply [(''Booking updated.'', ''success'')] (Redirect ''view_bookings'') \<and>
      bookings d' = bookings d \<and> customers d' = customers d \<and>
      services d' = services d \<and> users d' = users d \<and>
      rows (cars d') =
        (if bf_status form = Some ''completed'' \<or> bf_status form = Some ''cancelled''
         then (case bf_car_id form of
                 None \<Rightarrow> rows (cars d)
               | Some c \<Rightarrow> map (\<lambda>r. if car_key r = c then r\<lparr>car_status := ''available''\<rparr> else r)
                            (rows (cars d)))
         else rows (cars d))"
  unfolding edit_booking_missing [OF assms]
  by (simp add: update_car_status_def split: option.splits)

theorem edit_missing_booking_frees_car_witness:
  "select_booking 99 example_store = None
   \<and> (case edit_booking 99 POST (example_booking_form 2 (Some ''2024-01-01'') (Some ''cancelled''))
            example_store of (r, d') \<Rightarrow>
      r = Reply [(''Booking updated.'', ''success'')] (Redirect ''view_bookings'') \<and>
      bookings d' = bookings example_store \<and>
      map car_status (rows (cars example_store)) = [''maintenance'', ''rented''] \<and>
      map car_status (rows (cars d')) = [''maintenance'', ''available''])"
proof -
  let ?form = "example_booking_form 2 (Some ''2024-01-01'') (Some ''cancelled'')"
  have b: "select_booking 99 example_store = None"
    by (simp add: select_booking_def example_store_def)
  have p1: "strptime_date (bf_start_date ?form) = Inr \<lparr>year = 2024, month = 1, day = 1\<rparr>"
    by (simp add: example_booking_form_def strptime_examples)
  have p2: "strptime_date (bf_end_date ?form) = Inr \<lparr>year = 2024, month = 1, day = 3\<rparr>"
    by (simp add: example_booking_form_def strptime_examples)
  have "case edit_booking 99 POST ?form example_store of (r, d') \<Rightarrow>
      r = Reply [(''Booking updated.'', ''success'')] (Redirect ''view_bookings'') \<and>
      bookings d' = bookings example_store \<and>
      map car_status (rows (cars example_store)) = [''maintenance'', ''rented''] \<and>
      map car_status (rows (cars d')) = [''maintenance'', ''available'']"
    using edit_missing_booking_frees_car [OF b p1 p2]
    by (simp add: example_booking_form_def example_store_def split: prod.splits)
  with b show ?thesis by (rule conjI)
qed

text \<open>
  C10 as it is stated does not hold of every such POST: with the start date missing the
  request ends with a \<^verbatim>\<open>TypeError\<close>, the reply is not the notice, and the car stays
  rented.
\<close>

theorem missing_booking_missing_date_raises:
  "select_booking 99 example_store = None
   \<and> edit_booking 99 POST (example_booking_form 2 None (Some ''cancelled'')) example_store
       = (Raised TypeError, example_store)
   \<and> map car_status (rows (cars example_store)) = [''maintenance'', ''rented'']"
  by (simp add: select_booking_def example_store_def edit_booking_def Let_def
      calc_total_cost_def example_booking_form_def strptime_examples)

section \<open>Failed logins\<close>

text \<open>
  C8. A login with a username that no account has, and a login with the username of an
  account and a password that \<^verbatim>\<open>check_password_hash\<close> rejects, both fail, and the two
  failures are the same to the client: the same reply (the notice
  \<open>Invalid credentials.\<close> on the login page) and the same state afterwards, which is
  the state before, so no session is created.
\<close>

theorem login_failures_look_alike:
  assumes "select_user (lf_username f1) (store st) = None"
    and "select_user (lf_username f2) (store st) = Some usr"
    and "check_password_hash (usr_password_hash usr) (lf_password f2) = Inr False"
  shows "login check_password_hash POST f1 st
           = (Reply [(''Invalid credentials.'', ''danger'')] (Template ''login.html''), st)
       \<and> login check_password_hash POST f2 st
           = (Reply [(''Invalid credentials.'', ''danger'')] (Template ''login.html''), st)"
  using assms by (simp add: login_def Let_def)

theorem login_failures_look_alike_witness:
  "login example_check_password_hash POST
       \<lparr>lf_username = Some ''nobody'', lf_password = Some ''admin123''\<rparr> example_state
     = (Reply [(''Invalid credentials.'', ''danger'')] (Template ''login.html''), example_state)
   \<and> login example_check_password_hash POST
       \<lparr>lf_username = Some ''admin'', lf_password = Some ''letmein''\<rparr> example_state
     = (Reply [(''Invalid credentials.'', ''danger'')] (Template ''login.html''), example_state)
   \<and> session_user_id (sess example_state) = None"
proof -
  let ?f1 = "\<lparr>lf_username = Some ''nobody'', lf_password = Some ''admin123''\<rparr>"
  let ?f2 = "\<lparr>lf_username = Some ''admin'', lf_password = Some ''letmein''\<rparr>"
  let ?usr = "\<lparr>usr_id = 1, usr_username = ''admin'', usr_password_hash = ''salted:admin123'',
      usr_role = Some ''admin''\<rparr>"
  have h1: "select_user (lf_username ?f1) (store example_state) = None"
    by (simp add: select_user_def example_state_def example_store_def collation_defs)
  have h2: "select_user (lf_username ?f2) (store example_state) = Some ?usr"
    by (simp add: select_user_def example_state_def example_store_def collation_defs)
  have h3: "example_check_password_hash (usr_password_hash ?usr) (lf_password ?f2) = Inr False"
    by (simp add: example_check_password_hash_def)
  have s: "session_user_id (sess example_state) = None"
    by (simp add: example_state_def)
  from login_failures_look_alike
    [where check_password_hash = example_check_password_hash, OF h1 h2 h3] s
  show ?thesis by simp
qed

text \<open>For contrast, the login that succeeds on the example store.\<close>

lemma login_success_example:
  "login example_check_password_hash POST
       \<lparr>lf_username = Some ''admin'', lf_password = Some ''admin123''\<rparr> example_state
     = (Reply [(''Logged in successfully.'', ''success'')] (Redirect ''dashboard''),
        example_state\<lparr>sess := \<lparr>session_user_id = Some 1, session_username = Some ''admin''\<rparr>\<rparr>)"
  by (simp add: login_def Let_def select_user_def example_state_def example_store_def
      collation_defs example_check_password_hash_def)

section \<open>Start-up is idempotent and seeds the admin once\<close>

text \<open>
  C9. On a server whose users table only the application has written
  (\<open>users_written_by_app\<close>: missing, empty, or holding the row of an earlier run),
  and with a hash that fits its column as the library's do: initialization does not
  fail, keeps every table that exists and creates the others empty; it inserts the seed
  account exactly when the users table is empty; afterwards the users table holds
  exactly one account, with the default username and the hash of the default password;
  and running initialization again, on what is then a non-empty users table, changes
  nothing and inserts nothing.
\<close>

theorem init_db_idempotent_seeds_admin_once:
  assumes "users_written_by_app g0 (users_table s)"
    and "length (gen ADMIN_DEFAULT_PASSWORD) \<le> 255"
  shows "let u = create_table_if_not_exists (users_table s)
     in \<exists>d. init_db gen s = Inr d \<and>
        rows (users d) =
          (if rows u = []
           then [\<lparr>usr_id = auto_increment u, usr_username = ADMIN_DEFAULT_USERNAME,
                   usr_password_hash = gen ADMIN_DEFAULT_PASSWORD, usr_role = Some ''admin''\<rparr>]
           else rows u) \<and>
        (\<exists>r. rows (users d) = [r] \<and> seed_admin (if rows u = [] then gen else g0) r) \<and>
        cars d = create_table_if_not_exists (cars_table s) \<and>
        customers d = create_table_if_not_exists (customers_table s) \<and>
        bookings d = create_table_if_not_exists (bookings_table s) \<and>
        services d = create_table_if_not_exists (services_table s) \<and>
        init_db gen2 (server_of d) = Inr d"
proof -
  define u where "u = create_table_if_not_exists (users_table s)"
  define d0 where "d0 = \<lparr>users = u,
      cars = create_table_if_not_exists (cars_table s),
      customers = create_table_if_not_exists (customers_table s),
      bookings = create_table_if_not_exists (bookings_table s),
      services = create_table_if_not_exists (services_table s)\<rparr>"
  define seed where "seed = \<lparr>usr_id = auto_increment u, usr_username = ADMIN_DEFAULT_USERNAME,
      usr_password_hash = gen ADMIN_DEFAULT_PASSWORD, usr_role = Some ''admin''\<rparr>"
  have app: "rows u = [] \<or> (\<exists>r. rows u = [r] \<and> seed_admin g0 r)"
    using assms(1)
    by (auto simp add: users_written_by_app_def u_def create_table_if_not_exists_def
        split: option.splits list.splits)
  have "\<exists>d. init_db gen s = Inr d \<and>
        rows (users d) = (if rows u = [] then [seed] else rows u) \<and>
        (\<exists>r. rows (users d) = [r] \<and> seed_admin (if rows u = [] then gen else g0) r) \<and>
        cars d = create_table_if_not_exists (cars_table s) \<and>
        customers d = create_table_if_not_exists (customers_table s) \<and>
        bookings d = create_table_if_not_exists (bookings_table s) \<and>
        services d = create_table_if_not_exists (services_table s) \<and>
        init_db gen2 (server_of d) = Inr d"
  proof (cases "rows u = []")
    case True
    let ?d1 = "d0\<lparr>users := append_row
             (\<lambda>i. \<lparr>usr_id = i, usr_username = ADMIN_DEFAULT_USERNAME,
                   usr_password_hash = gen ADMIN_DEFAULT_PASSWORD, usr_role = Some ''admin''\<rparr>)
             (users d0)\<rparr>"
    have none: "select_user (Some ADMIN_DEFAULT_USERNAME) d0 = None"
      using True by (simp add: select_user_def d0_def)
    have nm: "\<not> matches (\<lambda>x. collate_eq (usr_username x) ADMIN_DEFAULT_USERNAME) (users d0)"
      using True by (simp add: matches_def d0_def)
    have name: "varchar 100 ADMIN_DEFAULT_USERNAME = Inr ADMIN_DEFAULT_USERNAME"
      by (simp add: varchar_fits ADMIN_DEFAULT_USERNAME_def)
    have ins: "insert_user ADMIN_DEFAULT_USERNAME (gen ADMIN_DEFAULT_PASSWORD) ''admin'' d0
        = Inr ?d1"
      using nm name assms(2) by (simp add: insert_user_def varchar_fits)
    have run: "init_db gen s = Inr ?d1"
      using none ins by (simp add: init_db_def Let_def d0_def [symmetric] u_def [symmetric])
    have rows1: "rows (users ?d1) = [seed]"
      using True by (simp add: d0_def seed_def)
    have sa: "seed_admin gen seed" by (simp add: seed_admin_def seed_def)
    have again: "init_db gen2 (server_of ?d1) = Inr ?d1"
      using rows1 seed_admin_collates [OF sa] by (intro init_db_again) simp
    show ?thesis
      using True run rows1 sa again by (intro exI [of _ ?d1]) (simp add: d0_def)
  next
    case False
    then obtain r where r: "rows u = [r]" "seed_admin g0 r" using app by auto
    have sel: "select_user (Some ADMIN_DEFAULT_USERNAME) d0 = Some r"
      using r seed_admin_collates [OF r(2)] by (simp add: select_user_def d0_def)
    have run: "init_db gen s = Inr d0"
      using sel by (simp add: init_db_def Let_def d0_def [symmetric] u_def [symmetric])
    have again: "init_db gen2 (server_of d0) = Inr d0"
      using r seed_admin_collates [OF r(2)] by (intro init_db_again) (simp add: d0_def)
    show ?thesis
      using False run r again by (intro exI [of _ d0]) (simp add: d0_def)
  qed
  then show ?thesis
    unfolding Let_def u_def seed_def .
qed

text \<open>On a server with no database: one account, the admin, and a second run changes nothing.\<close>

theorem init_db_idempotent_seeds_admin_once_witness:
  "case init_db example_generate_password_hash fresh_server of
     Inl e \<Rightarrow> False
   | Inr d \<Rightarrow>
       rows (users d) = [\<lparr>usr_id = 1, usr_username = ''admin'',
                           usr_password_hash = ''salted:admin123'', usr_role = Some ''admin''\<rparr>] \<and>
       rows (cars d) = [] \<and> rows (bookings d) = [] \<and>
       init_db example_generate_password_hash (server_of d) = Inr d"
proof -
  have h1: "users_written_by_app example_generate_password_hash (users_table fresh_server)"
    by (simp add: users_written_by_app_def fresh_server_def)
  have h2: "length (example_generate_password_hash ADMIN_DEFAULT_PASSWORD) \<le> 255"
    by (simp add: example_generate_password_hash_def ADMIN_DEFAULT_PASSWORD_def)
  note t = init_db_idempotent_seeds_admin_once
    [where s = fresh_server and gen = example_generate_password_hash
       and ?g0.0 = example_generate_password_hash
       and ?gen2.0 = example_generate_password_hash, OF h1 h2, unfolded Let_def]
  then obtain d where r: "init_db example_generate_password_hash fresh_server = Inr d"
    and u: "rows (users d) =
          (if rows (create_table_if_not_exists (users_table fresh_server)) = []
           then [\<lparr>usr_id = auto_increment (create_table_if_not_exists (users_table fresh_server)),
                   usr_username = ADMIN_DEFAULT_USERNAME,
                   usr_password_hash = example_generate_password_hash ADMIN_DEFAULT_PASSWORD,
                   usr_role = Some ''admin''\<rparr>]
           else rows (create_table_if_not_exists (users_table fresh_server)))"
    and c: "cars d = create_table_if_not_exists (cars_table fresh_server)"
    and b: "bookings d = create_table_if_not_exists (bookings_table fresh_server)"
    and i: "init_db example_generate_password_hash (server_of d) = Inr d"
    by (elim exE conjE) (rule that)
  have u': "rows (users d) = [\<lparr>usr_id = 1, usr_username = ''admin'',
                           usr_password_hash = ''salted:admin123'', usr_role = Some ''admin''\<rparr>]"
    using u by (simp add: fresh_server_def create_table_if_not_exists_def
        ADMIN_DEFAULT_USERNAME_def ADMIN_DEFAULT_PASSWORD_def example_generate_password_hash_def)
  have c': "rows (cars d) = []" "rows (bookings d) = []"
    using c b by (simp_all add: fresh_server_def create_table_if_not_exists_def)
  show ?thesis using r u' c' i by simp
qed

end
